theory Spec2Isabelle
  imports Complex_Main "HOL-Library.AList"
begin

section \<open>Data model\<close>

text \<open>
  The repository holds two revisions of one program: \<^verbatim>\<open>main.py\<close> (drift correction by a
  latency probe and playback-rate nudging) and \<^verbatim>\<open>main2.py\<close> (drift correction by a
  wall-clock timestamp, shuffle mode, \<^verbatim>\<open>request_sync\<close>). The classes \<^verbatim>\<open>MediaFile\<close> and
  \<^verbatim>\<open>Playlist\<close> and most methods of \<^verbatim>\<open>VLCSync\<close> are the same text in both files and are
  embedded once. Where the two files differ, the definition taken from \<^verbatim>\<open>main.py\<close> carries
  the suffix \<open>_main\<close> and the one taken from \<^verbatim>\<open>main2.py\<close> the suffix \<open>_main2\<close>.
\<close>

subsection \<open>MediaFile and Playlist\<close>

text \<open>
  The dataclass \<^verbatim>\<open>MediaFile\<close>. The field \<^verbatim>\<open>size\<close> is called \<open>fsize\<close> here.
\<close>

record MediaFile =
  path :: string
  name :: string
  fsize :: int
  hash :: string
  index :: int

text \<open>
  The class \<^verbatim>\<open>Playlist\<close>: the list of entries and the cursor. The lock serialises the
  methods; each method is modelled as one atomic step.
\<close>

record Playlist =
  media_files :: "MediaFile list"
  current_index :: int

definition Playlist_init :: Playlist where
  "Playlist_init = \<lparr>media_files = [], current_index = - 1\<rparr>"

definition add_file :: "MediaFile \<Rightarrow> Playlist \<Rightarrow> Playlist" where
  "add_file media_file p = p\<lparr>media_files := media_files p @ [media_file]\<rparr>"

definition get_current_file :: "Playlist \<Rightarrow> MediaFile option" where
  "get_current_file p =
     (if 0 \<le> current_index p \<and> current_index p < int (length (media_files p))
      then Some (media_files p ! nat (current_index p))
      else None)"

definition set_current_index :: "int \<Rightarrow> Playlist \<Rightarrow> bool \<times> Playlist" where
  "set_current_index i p =
     (if 0 \<le> i \<and> i < int (length (media_files p))
      then (True, p\<lparr>current_index := i\<rparr>)
      else (False, p))"

text \<open>
  Python's \<^verbatim>\<open>%\<close> with a positive right operand is the floor modulus, which is \<open>mod\<close> on
  \<open>int\<close>. Both methods test \<^verbatim>\<open>if self.media_files\<close> first, so the modulus is never zero.
\<close>

definition next_file :: "Playlist \<Rightarrow> MediaFile option \<times> Playlist" where
  "next_file p =
     (if media_files p \<noteq> []
      then (let p' = p\<lparr>current_index := (current_index p + 1) mod int (length (media_files p))\<rparr>
            in (get_current_file p', p'))
      else (None, p))"

definition previous_file :: "Playlist \<Rightarrow> MediaFile option \<times> Playlist" where
  "previous_file p =
     (if media_files p \<noteq> []
      then (let p' = p\<lparr>current_index := (current_index p - 1) mod int (length (media_files p))\<rparr>
            in (get_current_file p', p'))
      else (None, p))"

subsection \<open>Sequences of Playlist operations\<close>

datatype playlist_op =
    AddFile MediaFile
  | SetCurrentIndex int
  | NextFile
  | PreviousFile

fun apply_playlist_op :: "Playlist \<Rightarrow> playlist_op \<Rightarrow> Playlist" where
  "apply_playlist_op p (AddFile media_file) = add_file media_file p"
| "apply_playlist_op p (SetCurrentIndex i) = snd (set_current_index i p)"
| "apply_playlist_op p NextFile = snd (next_file p)"
| "apply_playlist_op p PreviousFile = snd (previous_file p)"

definition run_playlist_ops :: "playlist_op list \<Rightarrow> Playlist" where
  "run_playlist_ops ops = foldl apply_playlist_op Playlist_init ops"

definition cursor_in_range :: "Playlist \<Rightarrow> bool" where
  "cursor_in_range p \<longleftrightarrow> 0 \<le> current_index p \<and> current_index p < int (length (media_files p))"

definition cursor_ok :: "Playlist \<Rightarrow> bool" where
  "cursor_ok p \<longleftrightarrow> current_index p = - 1 \<or> cursor_in_range p"

subsection \<open>Wire messages\<close>

text \<open>
  A message is the dictionary that \<^verbatim>\<open>json.loads\<close> returns. The model keeps the keys the
  program reads; every key may be absent (\<open>None\<close>), and a key that is present holds a
  value of the JSON type the protocol gives it. Reading an absent key with
  \<^verbatim>\<open>command["k"]\<close> raises \<^verbatim>\<open>KeyError\<close>; \<^verbatim>\<open>command.get("k")\<close> returns \<open>None\<close>.
\<close>

record file_info =
  fi_name :: "string option"
  fi_size :: "int option"
  fi_hash :: "string option"
  fi_index :: "int option"

record command =
  cmd_type :: "string option"
  cmd_playlist :: "file_info list option"
  cmd_index :: "int option"
  cmd_time :: "int option"
  cmd_sync_time :: "int option"
  cmd_enabled :: "bool option"

definition mk_command :: "string \<Rightarrow> command" where
  "mk_command t =
     \<lparr>cmd_type = Some t, cmd_playlist = None, cmd_index = None, cmd_time = None,
      cmd_sync_time = None, cmd_enabled = None\<rparr>"

datatype error = KeyError string | ZeroDivisionError | ValueError | OSError

subsection \<open>The environment and the coordinator's state\<close>

type_synonym sock = nat

text \<open>
  What the program asks of its surroundings. \<open>find_media_files\<close> is the function of that
  name (the sorted paths of the media files of a folder; it catches its own errors).
  \<open>file_hash p\<close> is the \<^verbatim>\<open>"hash"\<close> entry of \<^verbatim>\<open>FileHandler.get_file_info(p)\<close>, or
  \<open>None\<close> when that call raises because the file cannot be read. \<open>os_path_exists\<close> is
  \<^verbatim>\<open>os.path.exists\<close> on non-empty paths. \<open>send_raises k\<close> tells whether
  \<^verbatim>\<open>socket.send\<close> raises on connection \<open>k\<close>. \<open>randint\<close> is \<^verbatim>\<open>random.randint\<close> on a
  non-empty range.
\<close>

record env =
  find_media_files :: "string \<Rightarrow> string list"
  file_hash :: "string \<Rightarrow> string option"
  os_path_exists :: "string \<Rightarrow> bool"
  send_raises :: "sock \<Rightarrow> bool"
  randint :: "int \<Rightarrow> int \<Rightarrow> int"

definition path_exists :: "env \<Rightarrow> string \<Rightarrow> bool" where
  \<comment> \<open>\<^verbatim>\<open>os.path.exists("")\<close> is \<^verbatim>\<open>False\<close>.\<close>
  "path_exists e p \<longleftrightarrow> p \<noteq> [] \<and> os_path_exists e p"

text \<open>
  The media engine (python-vlc's \<^verbatim>\<open>MediaPlayer\<close>) is not part of the repository. It is
  modelled as the capability the specification describes: it holds the loaded media, a
  playing flag, a position in milliseconds and a rate; \<^verbatim>\<open>set_time\<close>, \<^verbatim>\<open>set_rate\<close>
  and \<^verbatim>\<open>set_media\<close> store their argument, \<^verbatim>\<open>play\<close> and \<^verbatim>\<open>pause\<close> set and clear the
  flag, \<^verbatim>\<open>get_time\<close> and \<^verbatim>\<open>is_playing\<close> read. The position does not advance while a
  handler runs.
\<close>

record media_player =
  media :: "string option"
  playing :: bool
  position :: int
  rate :: real

text \<open>
  The attributes of \<^verbatim>\<open>VLCSync\<close> that the modelled methods use. \<open>sends\<close> is the trace of
  the \<^verbatim>\<open>socket.send\<close> calls made so far (connection and message, whether or not the
  call raised); \<open>closed\<close> lists the connections closed by \<^verbatim>\<open>handle_client\<close>.
\<close>

record VLCSync =
  is_host :: bool
  folder_path :: "string option"
  player :: media_player
  playlist :: Playlist
  clients :: "sock list"
  client_socket :: "sock option"
  running :: bool
  missing_files :: "(int \<times> MediaFile) list"
  shuffle_mode :: bool
  sends :: "(sock \<times> command) list"
  closed :: "sock list"

definition is_playing :: "VLCSync \<Rightarrow> bool" where
  "is_playing s = playing (player s)"

definition get_time :: "VLCSync \<Rightarrow> int" where
  "get_time s = position (player s)"

definition set_time :: "int \<Rightarrow> VLCSync \<Rightarrow> VLCSync" where
  "set_time t s = s\<lparr>player := (player s)\<lparr>position := t\<rparr>\<rparr>"

definition set_rate :: "real \<Rightarrow> VLCSync \<Rightarrow> VLCSync" where
  "set_rate r s = s\<lparr>player := (player s)\<lparr>rate := r\<rparr>\<rparr>"

definition set_media :: "string \<Rightarrow> VLCSync \<Rightarrow> VLCSync" where
  "set_media p s = s\<lparr>player := (player s)\<lparr>media := Some p\<rparr>\<rparr>"

definition player_play :: "VLCSync \<Rightarrow> VLCSync" where
  "player_play s = s\<lparr>player := (player s)\<lparr>playing := True\<rparr>\<rparr>"

definition player_pause :: "VLCSync \<Rightarrow> VLCSync" where
  "player_pause s = s\<lparr>player := (player s)\<lparr>playing := False\<rparr>\<rparr>"

subsection \<open>Transport\<close>

text \<open>
  \<^verbatim>\<open>send_command\<close> swallows every exception of the send; when the send raised and the
  connection is in \<^verbatim>\<open>self.clients\<close>, its first occurrence is removed. With no socket
  (\<^verbatim>\<open>None\<close>) the attribute access raises, nothing is sent and nothing is removed.
\<close>

definition send_command :: "env \<Rightarrow> command \<Rightarrow> sock option \<Rightarrow> VLCSync \<Rightarrow> VLCSync" where
  "send_command e c so s =
     (case so of
        None \<Rightarrow> s
      | Some k \<Rightarrow>
          (let s' = s\<lparr>sends := sends s @ [(k, c)]\<rparr>
           in if send_raises e k then s'\<lparr>clients := remove1 k (clients s')\<rparr> else s'))"

text \<open>The loop of \<^verbatim>\<open>broadcast_command\<close> runs over a copy of \<^verbatim>\<open>self.clients\<close>.\<close>

definition broadcast_command :: "env \<Rightarrow> command \<Rightarrow> VLCSync \<Rightarrow> VLCSync" where
  "broadcast_command e c s = foldl (\<lambda>st k. send_command e c (Some k) st) s (clients s)"

subsection \<open>Playlist reconciliation\<close>

fun find_matching_file_loop :: "env \<Rightarrow> file_info \<Rightarrow> string list \<Rightarrow> error + string option" where
  "find_matching_file_loop e fi [] = Inr None"
| "find_matching_file_loop e fi (file_path # rest) =
     (case file_hash e file_path of
        None \<Rightarrow> Inl OSError
      | Some local_hash \<Rightarrow>
          (case fi_hash fi of
             None \<Rightarrow> Inl (KeyError ''hash'')
           | Some h \<Rightarrow>
               if local_hash = h then Inr (Some file_path)
               else find_matching_file_loop e fi rest))"

definition find_matching_file :: "env \<Rightarrow> VLCSync \<Rightarrow> file_info \<Rightarrow> error + string option" where
  "find_matching_file e s fi =
     (case folder_path s of
        None \<Rightarrow> Inr None
      | Some folder \<Rightarrow>
          if folder = [] then Inr None
          else find_matching_file_loop e fi (find_media_files e folder))"

definition falsy :: "string option \<Rightarrow> bool" where
  \<comment> \<open>\<^verbatim>\<open>not local_path\<close>: \<^verbatim>\<open>None\<close> and the empty string are false.\<close>
  "falsy local_path \<longleftrightarrow> local_path = None \<or> local_path = Some []"

fun handle_playlist_info_loop ::
  "env \<Rightarrow> file_info list \<Rightarrow> VLCSync \<Rightarrow> error option \<times> VLCSync" where
  "handle_playlist_info_loop e [] s = (None, s)"
| "handle_playlist_info_loop e (fi # rest) s =
     (case find_matching_file e s fi of
        Inl err \<Rightarrow> (Some err, s)
      | Inr local_path \<Rightarrow>
          (case fi_name fi of
             None \<Rightarrow> (Some (KeyError ''name''), s)
           | Some n \<Rightarrow>
          (case fi_size fi of
             None \<Rightarrow> (Some (KeyError ''size''), s)
           | Some z \<Rightarrow>
          (case fi_hash fi of
             None \<Rightarrow> (Some (KeyError ''hash''), s)
           | Some h \<Rightarrow>
          (case fi_index fi of
             None \<Rightarrow> (Some (KeyError ''index''), s)
           | Some i \<Rightarrow>
              (let media_file =
                     \<lparr>path = (if falsy local_path then [] else the local_path),
                      name = n, fsize = z, hash = h, index = i\<rparr>;
                   s1 = s\<lparr>playlist := add_file media_file (playlist s)\<rparr>;
                   s2 = (if falsy local_path
                         then s1\<lparr>missing_files := AList.update i media_file (missing_files s1)\<rparr>
                         else s1)
               in handle_playlist_info_loop e rest s2))))))"

definition handle_playlist_info ::
  "env \<Rightarrow> file_info list \<Rightarrow> VLCSync \<Rightarrow> error option \<times> VLCSync" where
  "handle_playlist_info e playlist_info s =
     handle_playlist_info_loop e playlist_info (s\<lparr>playlist := Playlist_init\<rparr>)"

subsection \<open>The load gate\<close>

definition request_file :: "env \<Rightarrow> int \<Rightarrow> VLCSync \<Rightarrow> VLCSync" where
  "request_file e file_index s =
     (if \<not> is_host s
      then send_command e ((mk_command ''request_file'')\<lparr>cmd_index := Some file_index\<rparr>)
             (client_socket s) s
      else s)"

definition verify_and_load_file :: "env \<Rightarrow> int \<Rightarrow> VLCSync \<Rightarrow> bool \<times> VLCSync" where
  "verify_and_load_file e file_index s =
     (case find (\<lambda>mf. index mf = file_index) (media_files (playlist s)) of
        None \<Rightarrow> (False, s)
      | Some media_file \<Rightarrow>
          if \<not> path_exists e (path media_file)
          then (False, request_file e file_index s)
          else (True,
                set_media (path media_file)
                  (s\<lparr>playlist := snd (set_current_index file_index (playlist s))\<rparr>)))"

definition handle_file_request :: "command \<Rightarrow> VLCSync \<Rightarrow> error option \<times> VLCSync" where
  \<comment> \<open>after reading the index the method only prints\<close>
  "handle_file_request c s =
     (case cmd_index c of None \<Rightarrow> (Some (KeyError ''index''), s) | Some file_index \<Rightarrow> (None, s))"

subsection \<open>Playback operations\<close>

definition play_main :: "env \<Rightarrow> VLCSync \<Rightarrow> VLCSync" where
  "play_main e s =
     (let s1 = player_play s
      in if is_host s1
         then broadcast_command e ((mk_command ''play'')\<lparr>cmd_time := Some (get_time s1)\<rparr>) s1
         else s1)"

definition play_main2 :: "env \<Rightarrow> int option \<Rightarrow> VLCSync \<Rightarrow> VLCSync" where
  "play_main2 e time_arg s =
     (let s0 = (case time_arg of None \<Rightarrow> s | Some t \<Rightarrow> set_time t s);
          s1 = player_play s0
      in if is_host s1
         then broadcast_command e ((mk_command ''play'')\<lparr>cmd_time := Some (get_time s1)\<rparr>) s1
         else s1)"

definition pause :: "env \<Rightarrow> VLCSync \<Rightarrow> VLCSync" where
  "pause e s =
     (let s1 = player_pause s
      in if is_host s1 then broadcast_command e (mk_command ''pause'') s1 else s1)"

definition seek :: "env \<Rightarrow> int \<Rightarrow> VLCSync \<Rightarrow> VLCSync" where
  "seek e t s =
     (let s1 = set_time t s
      in if is_host s1
         then broadcast_command e ((mk_command ''seek'')\<lparr>cmd_time := Some t\<rparr>) s1
         else s1)"

definition play_file_main2 :: "env \<Rightarrow> int \<Rightarrow> VLCSync \<Rightarrow> VLCSync" where
  "play_file_main2 e i s =
     (case verify_and_load_file e i s of
        (False, s') \<Rightarrow> s'
      | (True, s') \<Rightarrow>
          if is_host s'
          then (let s1 = player_play s'
                in broadcast_command e
                     ((mk_command ''play_file'')\<lparr>cmd_index := Some i, cmd_time := Some (get_time s1)\<rparr>)
                     s1)
          else play_main2 e None s')"

definition toggle_shuffle :: "VLCSync \<Rightarrow> bool \<times> VLCSync" where
  "toggle_shuffle s = (\<not> shuffle_mode s, s\<lparr>shuffle_mode := \<not> shuffle_mode s\<rparr>)"

text \<open>
  \<^verbatim>\<open>play_next\<close> of \<^verbatim>\<open>main2.py\<close> computes the next index itself. With an empty list,
  \<^verbatim>\<open>random.randint(0, -1)\<close> raises \<^verbatim>\<open>ValueError\<close> and \<^verbatim>\<open>% 0\<close> raises
  \<^verbatim>\<open>ZeroDivisionError\<close>, before anything is changed.
\<close>

definition play_next :: "env \<Rightarrow> VLCSync \<Rightarrow> error option \<times> VLCSync" where
  "play_next e s =
     (let n = int (length (media_files (playlist s)))
      in if shuffle_mode s
         then (if 0 > n - 1 then (Some ValueError, s)
               else (None, play_file_main2 e (randint e 0 (n - 1)) s))
         else (if n = 0 then (Some ZeroDivisionError, s)
               else (None, play_file_main2 e ((current_index (playlist s) + 1) mod n) s)))"

text \<open>\<^verbatim>\<open>VLCSync.next_file\<close> and \<^verbatim>\<open>VLCSync.previous_file\<close> go through the Playlist.\<close>

definition VLCSync_next_file :: "env \<Rightarrow> VLCSync \<Rightarrow> VLCSync" where
  "VLCSync_next_file e s =
     (case next_file (playlist s) of
        (None, p) \<Rightarrow> s\<lparr>playlist := p\<rparr>
      | (Some next_media, p) \<Rightarrow> play_file_main2 e (index next_media) (s\<lparr>playlist := p\<rparr>))"

definition VLCSync_previous_file :: "env \<Rightarrow> VLCSync \<Rightarrow> VLCSync" where
  "VLCSync_previous_file e s =
     (case previous_file (playlist s) of
        (None, p) \<Rightarrow> s\<lparr>playlist := p\<rparr>
      | (Some prev_media, p) \<Rightarrow> play_file_main2 e (index prev_media) (s\<lparr>playlist := p\<rparr>))"

subsection \<open>Clock synchronisation\<close>

text \<open>
  \<^verbatim>\<open>main2.py\<close>: \<open>current_time\<close> is the client's reading \<^verbatim>\<open>int(time.time() * 1000)\<close>.
\<close>

definition handle_sync_main2 :: "int \<Rightarrow> command \<Rightarrow> VLCSync \<Rightarrow> error option \<times> VLCSync" where
  "handle_sync_main2 current_time c s =
     (if \<not> is_host s then
        (case cmd_time c of
           None \<Rightarrow> (Some (KeyError ''time''), s)
         | Some host_time \<Rightarrow>
        (case cmd_sync_time c of
           None \<Rightarrow> (Some (KeyError ''sync_time''), s)
         | Some sync_time \<Rightarrow>
            (let time_diff = current_time - sync_time;
                 adjusted_host_time = host_time + time_diff
             in if is_playing s
                then (let current_player_time = get_time s;
                          player_time_diff = current_player_time - adjusted_host_time
                      in if abs player_time_diff > 100
                         then (None, set_time adjusted_host_time s)
                         else (None, s))
                else (None, set_time adjusted_host_time s))))
      else (None, s))"

definition send_sync_command :: "env \<Rightarrow> int \<Rightarrow> VLCSync \<Rightarrow> VLCSync" where
  "send_sync_command e sync_time s =
     (if is_host s \<and> is_playing s
      then broadcast_command e
             ((mk_command ''sync'')\<lparr>cmd_time := Some (get_time s), cmd_sync_time := Some sync_time\<rparr>)
             s
      else s)"

text \<open>
  \<^verbatim>\<open>main.py\<close>: \<^verbatim>\<open>measure_latency\<close> sends a ping and waits up to a second for the pong.
  \<open>probe\<close> is the outcome of that wait: \<open>Some ms\<close> when the pong arrived after \<open>ms\<close>
  milliseconds, \<open>None\<close> otherwise (the method then returns 0). \<^verbatim>\<open>int(latency)\<close>
  truncates toward zero.
\<close>

definition measure_latency :: "env \<Rightarrow> real option \<Rightarrow> VLCSync \<Rightarrow> real \<times> VLCSync" where
  "measure_latency e probe s =
     (if \<not> is_host s \<and> client_socket s \<noteq> None
      then (let s1 = send_command e (mk_command ''ping'') (client_socket s) s
            in (case probe of Some ms \<Rightarrow> (ms, s1) | None \<Rightarrow> (0, s1)))
      else (0, s))"

definition py_int :: "real \<Rightarrow> int" where
  "py_int x = (if 0 \<le> x then \<lfloor>x\<rfloor> else \<lceil>x\<rceil>)"

definition handle_sync_main ::
  "env \<Rightarrow> real option \<Rightarrow> command \<Rightarrow> VLCSync \<Rightarrow> error option \<times> VLCSync" where
  "handle_sync_main e probe c s =
     (if \<not> is_host s \<and> is_playing s then
        (case cmd_time c of
           None \<Rightarrow> (Some (KeyError ''time''), s)
         | Some host_time \<Rightarrow>
            (let current_time = get_time s;
                 (measured, s1) = measure_latency e probe s;
                 latency = measured / 2;
                 adjusted_host_time = host_time + py_int latency;
                 time_diff = current_time - adjusted_host_time
             in if abs time_diff > 1000 then (None, set_time adjusted_host_time s1)
                else if abs time_diff > 100
                     then (if time_diff > 0 then (None, set_rate 0.95 s1)
                           else (None, set_rate 1.05 s1))
                     else (None, set_rate 1.0 s1)))
      else (None, s))"

subsection \<open>The dispatcher\<close>

definition handle_command_main2 ::
  "env \<Rightarrow> int \<Rightarrow> command \<Rightarrow> sock option \<Rightarrow> VLCSync \<Rightarrow> error option \<times> VLCSync" where
  "handle_command_main2 e now c sk s =
     (case cmd_type c of
        None \<Rightarrow> (Some (KeyError ''type''), s)
      | Some t \<Rightarrow>
          if t = ''playlist_info'' then
            (case cmd_playlist c of
               None \<Rightarrow> (Some (KeyError ''playlist''), s)
             | Some playlist_info \<Rightarrow> handle_playlist_info e playlist_info s)
          else if t = ''play_file'' then
            (case cmd_index c of
               None \<Rightarrow> (Some (KeyError ''index''), s)
             | Some file_index \<Rightarrow>
                 (case verify_and_load_file e file_index s of
                    (True, s') \<Rightarrow> (None, play_main2 e (cmd_time c) s')
                  | (False, s') \<Rightarrow> (None, s')))
          else if t = ''play'' then (None, play_main2 e (cmd_time c) s)
          else if t = ''pause'' then (None, pause e s)
          else if t = ''seek'' then
            (case cmd_time c of
               None \<Rightarrow> (Some (KeyError ''time''), s)
             | Some time_ms \<Rightarrow> (None, seek e time_ms s))
          else if t = ''sync'' then
            (if \<not> is_host s then handle_sync_main2 now c s else (None, s))
          else if t = ''request_sync'' then
            (if is_host s then (None, send_sync_command e now s) else (None, s))
          else if t = ''toggle_shuffle'' then
            (if is_host s
             then (case toggle_shuffle s of
                     (new_state, s') \<Rightarrow>
                       (None,
                        broadcast_command e
                          ((mk_command ''shuffle_state'')\<lparr>cmd_enabled := Some new_state\<rparr>) s'))
             else (None, s))
          else if t = ''shuffle_state'' then
            (if \<not> is_host s
             then (case cmd_enabled c of
                     None \<Rightarrow> (Some (KeyError ''enabled''), s)
                   | Some b \<Rightarrow> (None, s\<lparr>shuffle_mode := b\<rparr>))
             else (None, s))
          else if t = ''ping'' then
            (if is_host s \<and> sk \<noteq> None
             then (None, send_command e (mk_command ''pong'') sk s)
             else (None, s))
          else if t = ''request_file'' then
            (if is_host s then handle_file_request c s else (None, s))
          else (None, s))"

definition handle_command_main ::
  "env \<Rightarrow> real option \<Rightarrow> command \<Rightarrow> sock option \<Rightarrow> VLCSync \<Rightarrow> error option \<times> VLCSync" where
  "handle_command_main e probe c sk s =
     (case cmd_type c of
        None \<Rightarrow> (Some (KeyError ''type''), s)
      | Some t \<Rightarrow>
          if t = ''playlist_info'' then
            (case cmd_playlist c of
               None \<Rightarrow> (Some (KeyError ''playlist''), s)
             | Some playlist_info \<Rightarrow> handle_playlist_info e playlist_info s)
          else if t = ''play_file'' then
            (case cmd_index c of
               None \<Rightarrow> (Some (KeyError ''index''), s)
             | Some file_index \<Rightarrow>
                 (case verify_and_load_file e file_index s of
                    (True, s') \<Rightarrow>
                      (case cmd_time c of
                         Some t' \<Rightarrow> (None, set_time t' (player_play s'))
                       | None \<Rightarrow> (None, play_main e s'))
                  | (False, s') \<Rightarrow> (None, s')))
          else if t = ''play'' then
            (let s1 = player_play s
             in (case cmd_time c of Some t' \<Rightarrow> (None, set_time t' s1) | None \<Rightarrow> (None, s1)))
          else if t = ''pause'' then (None, pause e s)
          else if t = ''seek'' then
            (case cmd_time c of
               None \<Rightarrow> (Some (KeyError ''time''), s)
             | Some time_ms \<Rightarrow> (None, seek e time_ms s))
          else if t = ''sync'' then
            (if \<not> is_host s then handle_sync_main e probe c s else (None, s))
          else if t = ''ping'' then
            (if is_host s \<and> sk \<noteq> None
             then (None, send_command e (mk_command ''pong'') sk s)
             else (None, s))
          else if t = ''request_file'' then
            (if is_host s then handle_file_request c s else (None, s))
          else (None, s))"

subsection \<open>The receive loops\<close>

text \<open>
  One outcome of \<^verbatim>\<open>recv\<close> per loop iteration: a timeout, an empty read (the peer closed),
  a socket error, bytes that \<^verbatim>\<open>json.loads\<close> rejects with \<^verbatim>\<open>JSONDecodeError\<close>, or a
  decoded message together with the wall-clock reading taken while it is handled. When
  the list is used up the loop is still waiting in \<^verbatim>\<open>recv\<close>.
\<close>

datatype recv_event =
    RecvTimeout
  | RecvClosed
  | RecvFailed
  | RecvUndecodable
  | RecvCommand command int

datatype loop_state = Receiving | Exited

fun handle_client_loop ::
  "env \<Rightarrow> sock \<Rightarrow> recv_event list \<Rightarrow> VLCSync \<Rightarrow> loop_state \<times> VLCSync" where
  "handle_client_loop e k [] s = (if running s then (Receiving, s) else (Exited, s))"
| "handle_client_loop e k (ev # evs) s =
     (if \<not> running s then (Exited, s)
      else (case ev of
              RecvTimeout \<Rightarrow> handle_client_loop e k evs s
            | RecvClosed \<Rightarrow> (Exited, s)
            | RecvFailed \<Rightarrow> (Exited, s)
            | RecvUndecodable \<Rightarrow> handle_client_loop e k evs s
            | RecvCommand c now \<Rightarrow>
                (case handle_command_main2 e now c (Some k) s of
                   (None, s') \<Rightarrow> handle_client_loop e k evs s'
                 | (Some err, s') \<Rightarrow> (Exited, s'))))"

text \<open>
  The host's loop for one connection. The bare \<^verbatim>\<open>except\<close> swallows whatever ended the
  loop; the \<^verbatim>\<open>finally\<close> block removes the connection from \<^verbatim>\<open>self.clients\<close> and closes
  it.
\<close>

definition handle_client :: "env \<Rightarrow> sock \<Rightarrow> recv_event list \<Rightarrow> VLCSync \<Rightarrow> loop_state \<times> VLCSync" where
  "handle_client e k evs s =
     (case handle_client_loop e k evs s of
        (Receiving, s') \<Rightarrow> (Receiving, s')
      | (Exited, s') \<Rightarrow>
          (Exited, s'\<lparr>clients := remove1 k (clients s'), closed := closed s' @ [k]\<rparr>))"

text \<open>
  The client's loop. Only the timeout is caught inside; every other exception is printed
  and ends the loop.
\<close>

fun receive_commands :: "env \<Rightarrow> recv_event list \<Rightarrow> VLCSync \<Rightarrow> loop_state \<times> VLCSync" where
  "receive_commands e [] s = (if running s then (Receiving, s) else (Exited, s))"
| "receive_commands e (ev # evs) s =
     (if \<not> running s then (Exited, s)
      else (case ev of
              RecvTimeout \<Rightarrow> receive_commands e evs s
            | RecvClosed \<Rightarrow> (Exited, s)
            | RecvFailed \<Rightarrow> (Exited, s)
            | RecvUndecodable \<Rightarrow> (Exited, s)
            | RecvCommand c now \<Rightarrow>
                (case handle_command_main2 e now c None s of
                   (None, s') \<Rightarrow> receive_commands e evs s'
                 | (Some err, s') \<Rightarrow> (Exited, s'))))"

subsection \<open>Notions used to state the properties\<close>

text \<open>
  The files that \<^verbatim>\<open>find_matching_file\<close> fingerprints: none without a folder, otherwise
  the result of \<^verbatim>\<open>find_media_files\<close> in scan order.
\<close>

definition local_files :: "env \<Rightarrow> VLCSync \<Rightarrow> string list" where
  "local_files e s =
     (case folder_path s of
        None \<Rightarrow> []
      | Some folder \<Rightarrow> if folder = [] then [] else find_media_files e folder)"

text \<open>An announced entry is valid when it has its four keys.\<close>

definition valid_file_info :: "file_info \<Rightarrow> bool" where
  "valid_file_info fi \<longleftrightarrow>
     fi_name fi \<noteq> None \<and> fi_size fi \<noteq> None \<and> fi_hash fi \<noteq> None \<and> fi_index fi \<noteq> None"

text \<open>The first local file, in scan order, whose fingerprint is \<open>h\<close>.\<close>

definition first_match :: "env \<Rightarrow> VLCSync \<Rightarrow> string \<Rightarrow> string option" where
  "first_match e s h = find (\<lambda>p. file_hash e p = Some h) (local_files e s)"

definition reconciled :: "env \<Rightarrow> VLCSync \<Rightarrow> file_info \<Rightarrow> MediaFile" where
  "reconciled e s fi =
     \<lparr>path = (case first_match e s (the (fi_hash fi)) of None \<Rightarrow> [] | Some p \<Rightarrow> p),
      name = the (fi_name fi), fsize = the (fi_size fi), hash = the (fi_hash fi),
      index = the (fi_index fi)\<rparr>"

subsection \<open>Concrete inputs\<close>

text \<open>
  A client whose media folder holds one file, with fingerprint \<open>h2\<close>, and a host with two
  connected peers; the announcement of a playlist of two entries with fingerprints \<open>h1\<close>
  and \<open>h2\<close>.
\<close>

definition ex_env :: env where
  "ex_env =
     \<lparr>find_media_files = (\<lambda>folder. [''/m/b.mp4'']),
      file_hash = (\<lambda>p. if p = ''/m/b.mp4'' then Some ''h2'' else None),
      os_path_exists = (\<lambda>p. p = ''/m/b.mp4''),
      send_raises = (\<lambda>k. False),
      randint = (\<lambda>a b. a)\<rparr>"

definition ex_player :: media_player where
  "ex_player = \<lparr>media = None, playing = False, position = 0, rate = 1\<rparr>"

definition ex_client :: VLCSync where
  "ex_client =
     \<lparr>is_host = False, folder_path = Some ''/m'', player = ex_player,
      playlist = Playlist_init, clients = [], client_socket = Some 0, running = True,
      missing_files = [], shuffle_mode = False, sends = [], closed = []\<rparr>"

definition ex_host :: VLCSync where
  "ex_host =
     \<lparr>is_host = True, folder_path = Some ''/m'', player = ex_player,
      playlist = Playlist_init, clients = [1, 2], client_socket = None, running = True,
      missing_files = [], shuffle_mode = False, sends = [], closed = []\<rparr>"

definition ex_file_a :: MediaFile where
  "ex_file_a = \<lparr>path = [], name = ''a.mp4'', fsize = 10, hash = ''h1'', index = 0\<rparr>"

definition ex_file_b :: MediaFile where
  "ex_file_b = \<lparr>path = ''/m/b.mp4'', name = ''b.mp4'', fsize = 20, hash = ''h2'', index = 1\<rparr>"

definition ex_playlist_info :: "file_info list" where
  "ex_playlist_info =
     [\<lparr>fi_name = Some ''a.mp4'', fi_size = Some 10, fi_hash = Some ''h1'', fi_index = Some 0\<rparr>,
      \<lparr>fi_name = Some ''b.mp4'', fi_size = Some 20, fi_hash = Some ''h2'', fi_index = Some 1\<rparr>]"

definition ex_playlist :: Playlist where
  "ex_playlist = \<lparr>media_files = [ex_file_a, ex_file_b], current_index = - 1\<rparr>"

text \<open>
  The client after it has taken over the announced playlist; a \<^verbatim>\<open>sync\<close> message with
  host position 0 and host timestamp 1000; the client with media loaded, at a given
  playing flag, position and rate.
\<close>

definition ex_client_loaded :: VLCSync where
  "ex_client_loaded = ex_client\<lparr>playlist := ex_playlist\<rparr>"

definition ex_sync :: command where
  "ex_sync = (mk_command ''sync'')\<lparr>cmd_time := Some 0, cmd_sync_time := Some 1000\<rparr>"

definition ex_client_at :: "bool \<Rightarrow> int \<Rightarrow> real \<Rightarrow> VLCSync" where
  "ex_client_at pl pos r =
     ex_client\<lparr>player := \<lparr>media = Some ''/m/b.mp4'', playing = pl, position = pos, rate = r\<rparr>\<rparr>"

text \<open>The tags that \<^verbatim>\<open>handle_command\<close> of \<^verbatim>\<open>main2.py\<close> tests for.\<close>

definition known_tags :: "string list" where
  "known_tags =
     [''playlist_info'', ''play_file'', ''play'', ''pause'', ''seek'', ''sync'',
      ''request_sync'', ''toggle_shuffle'', ''shuffle_state'', ''ping'', ''request_file'']"

text \<open>
  A message without its tag, or without a key that the branch taken for its tag (on this
  node's role) reads with \<^verbatim>\<open>command["..."]\<close>.
\<close>

definition lacks_required_field :: "VLCSync \<Rightarrow> command \<Rightarrow> bool" where
  "lacks_required_field s c \<longleftrightarrow>
     cmd_type c = None
     \<or> (cmd_type c = Some ''playlist_info'' \<and> cmd_playlist c = None)
     \<or> (cmd_type c = Some ''play_file'' \<and> cmd_index c = None)
     \<or> (cmd_type c = Some ''seek'' \<and> cmd_time c = None)
     \<or> (cmd_type c = Some ''sync'' \<and> \<not> is_host s
          \<and> (cmd_time c = None \<or> cmd_sync_time c = None))
     \<or> (cmd_type c = Some ''shuffle_state'' \<and> \<not> is_host s \<and> cmd_enabled c = None)
     \<or> (cmd_type c = Some ''request_file'' \<and> is_host s \<and> cmd_index c = None)"

text \<open>
  The same surroundings with a second media file, first in scan order, that cannot be
  read; and an announcement of the one file the client has, under index 5, with the
  client after it has taken that announcement over.
\<close>

definition ex_env_unreadable :: env where
  "ex_env_unreadable = ex_env\<lparr>find_media_files := (\<lambda>folder. [''/m/a.mp4'', ''/m/b.mp4''])\<rparr>"

definition ex_playlist_info_5 :: "file_info list" where
  "ex_playlist_info_5 =
     [\<lparr>fi_name = Some ''b.mp4'', fi_size = Some 20, fi_hash = Some ''h2'', fi_index = Some 5\<rparr>]"

definition ex_client_5 :: VLCSync where
  "ex_client_5 =
     ex_client\<lparr>playlist := \<lparr>media_files = [ex_file_b\<lparr>index := 5\<rparr>], current_index = - 1\<rparr>\<rparr>"

text \<open>The host while it plays, at position 4000.\<close>

definition ex_host_playing :: VLCSync where
  "ex_host_playing =
     ex_host\<lparr>player := \<lparr>media = Some ''/m/b.mp4'', playing = True, position = 4000, rate = 1\<rparr>\<rparr>"

section \<open>Playlist: cursor arithmetic and the cursor invariant\<close>

lemma next_file_nonempty:
  assumes "media_files p \<noteq> []"
  shows "current_index (snd (next_file p)) = (current_index p + 1) mod int (length (media_files p))"
    and "media_files (snd (next_file p)) = media_files p"
    and "fst (next_file p) =
           Some (media_files p ! nat ((current_index p + 1) mod int (length (media_files p))))"
  using assms by (simp_all add: next_file_def get_current_file_def Let_def)

lemma previous_file_nonempty:
  assumes "media_files p \<noteq> []"
  shows "current_index (snd (previous_file p)) =
           (current_index p - 1 + int (length (media_files p))) mod int (length (media_files p))"
    and "media_files (snd (previous_file p)) = media_files p"
    and "fst (previous_file p) =
           Some (media_files p !
                 nat ((current_index p - 1 + int (length (media_files p)))
                      mod int (length (media_files p))))"
  using assms by (simp_all add: previous_file_def get_current_file_def Let_def)

lemma playlist_ops_empty:
  assumes "media_files p = []"
  shows "next_file p = (None, p)"
    and "previous_file p = (None, p)"
    and "get_current_file p = None"
    and "set_current_index i p = (False, p)"
  using assms
  by (simp_all add: next_file_def previous_file_def get_current_file_def set_current_index_def)

lemma cursor_ok_step: "cursor_ok p \<Longrightarrow> cursor_ok (apply_playlist_op p x)"
proof (cases x)
  case (AddFile media_file)
  assume "cursor_ok p"
  then show ?thesis
    using AddFile by (auto simp: cursor_ok_def cursor_in_range_def add_file_def)
next
  case (SetCurrentIndex i)
  assume "cursor_ok p"
  then show ?thesis
    using SetCurrentIndex by (auto simp: cursor_ok_def cursor_in_range_def set_current_index_def)
next
  case NextFile
  assume "cursor_ok p"
  then show ?thesis
    using NextFile by (auto simp: cursor_ok_def cursor_in_range_def next_file_def Let_def)
next
  case PreviousFile
  assume "cursor_ok p"
  then show ?thesis
    using PreviousFile by (auto simp: cursor_ok_def cursor_in_range_def previous_file_def Let_def)
qed

lemma cursor_ok_foldl: "cursor_ok p \<Longrightarrow> cursor_ok (foldl apply_playlist_op p ops)"
  by (induction ops arbitrary: p) (simp_all add: cursor_ok_step)

lemma cursor_ok_init: "cursor_ok Playlist_init"
  by (simp add: cursor_ok_def Playlist_init_def)

text \<open>
  C10. Every Playlist reached from the freshly constructed one (cursor \<open>-1\<close>) by any
  sequence of \<^verbatim>\<open>add_file\<close>, \<^verbatim>\<open>set_current_index\<close>, \<^verbatim>\<open>next_file\<close> and
  \<^verbatim>\<open>previous_file\<close> has a cursor that is \<open>-1\<close> or a valid position. In particular
  \<^verbatim>\<open>set_current_index\<close> either leaves the cursor as it was or stores a valid position,
  and on a non-empty playlist \<^verbatim>\<open>next_file\<close> and \<^verbatim>\<open>previous_file\<close> leave the cursor
  in range.
\<close>

theorem playlist_cursor_invariant:
  "cursor_ok (run_playlist_ops ops)
   \<and> (snd (set_current_index i p) = p
        \<or> (current_index (snd (set_current_index i p)) = i
            \<and> cursor_in_range (snd (set_current_index i p))))
   \<and> (media_files p \<noteq> [] \<longrightarrow>
        cursor_in_range (snd (next_file p)) \<and> cursor_in_range (snd (previous_file p)))"
proof (intro conjI impI)
  show "cursor_ok (run_playlist_ops ops)"
    unfolding run_playlist_ops_def by (rule cursor_ok_foldl [OF cursor_ok_init])
next
  show "snd (set_current_index i p) = p
        \<or> (current_index (snd (set_current_index i p)) = i
            \<and> cursor_in_range (snd (set_current_index i p)))"
    by (simp add: set_current_index_def cursor_in_range_def)
next
  assume "media_files p \<noteq> []"
  then show "cursor_in_range (snd (next_file p))"
    by (simp add: next_file_def cursor_in_range_def Let_def)
next
  assume "media_files p \<noteq> []"
  then show "cursor_in_range (snd (previous_file p))"
    by (simp add: previous_file_def cursor_in_range_def Let_def)
qed

theorem playlist_cursor_invariant_witness:
  "media_files ex_playlist \<noteq> []
   \<and> cursor_ok (run_playlist_ops [AddFile ex_file_a, PreviousFile, SetCurrentIndex 7, NextFile])
   \<and> cursor_in_range (snd (next_file ex_playlist))
   \<and> cursor_in_range (snd (previous_file ex_playlist))"
  using playlist_cursor_invariant
          [of "[AddFile ex_file_a, PreviousFile, SetCurrentIndex 7, NextFile]" 7 ex_playlist]
  by (simp add: ex_playlist_def)

section \<open>Playlist reconciliation\<close>

lemma find_matching_file_loop_find:
  assumes "\<forall>p \<in> set files. file_hash e p \<noteq> None" and "fi_hash fi = Some h"
  shows "find_matching_file_loop e fi files = Inr (find (\<lambda>p. file_hash e p = Some h) files)"
  using assms by (induction files) auto

lemma find_matching_file_first_match:
  assumes "\<forall>p \<in> set (local_files e s). file_hash e p \<noteq> None" and "fi_hash fi = Some h"
  shows "find_matching_file e s fi = Inr (first_match e s h)"
  using assms find_matching_file_loop_find [of "find_media_files e (the (folder_path s))" e fi h]
  by (auto simp: find_matching_file_def first_match_def local_files_def split: option.splits)

lemma find_Some_mem: "find P xs = Some x \<Longrightarrow> x \<in> set xs \<and> P x"
  by (induction xs) (auto split: if_splits)

lemma local_files_cong:
  "folder_path s' = folder_path s \<Longrightarrow> local_files e s' = local_files e s"
  by (simp add: local_files_def)

lemma first_match_cong:
  "folder_path s' = folder_path s \<Longrightarrow> first_match e s' h = first_match e s h"
  using local_files_cong [of s' s e] by (simp add: first_match_def)

lemma handle_playlist_info_loop_step:
  assumes "find_matching_file e s fi = Inr lp"
    and "fi_name fi = Some n" "fi_size fi = Some z" "fi_hash fi = Some h" "fi_index fi = Some i"
  shows "handle_playlist_info_loop e (fi # rest) s =
           handle_playlist_info_loop e rest
             (let media_file =
                     \<lparr>path = (if falsy lp then [] else the lp),
                      name = n, fsize = z, hash = h, index = i\<rparr>;
                   s1 = s\<lparr>playlist := add_file media_file (playlist s)\<rparr>
               in (if falsy lp
                   then s1\<lparr>missing_files := AList.update i media_file (missing_files s1)\<rparr>
                   else s1))"
  using assms by (simp add: Let_def)

lemma handle_playlist_info_loop_ok:
  assumes "\<forall>fi \<in> set infos. valid_file_info fi"
    and "\<forall>p \<in> set (local_files e s). file_hash e p \<noteq> None"
  shows "\<exists>s'. handle_playlist_info_loop e infos s = (None, s')
           \<and> media_files (playlist s') = media_files (playlist s) @ map (reconciled e s) infos
           \<and> current_index (playlist s') = current_index (playlist s)
           \<and> fst ` set (missing_files s) \<subseteq> fst ` set (missing_files s')
           \<and> (\<forall>fi \<in> set infos. first_match e s (the (fi_hash fi)) = None \<longrightarrow>
                 the (fi_index fi) \<in> fst ` set (missing_files s'))"
  using assms
proof (induction infos arbitrary: s)
  case Nil
  then show ?case by simp
next
  case (Cons fi rest)
  from Cons.prems(1) obtain n z h i where
    fi: "fi_name fi = Some n" "fi_size fi = Some z" "fi_hash fi = Some h" "fi_index fi = Some i"
    by (auto simp: valid_file_info_def)
  define lp where "lp = first_match e s h"
  have fm: "find_matching_file e s fi = Inr lp"
    unfolding lp_def by (rule find_matching_file_first_match [OF Cons.prems(2) fi(3)])
  define mf where "mf = reconciled e s fi"
  have mf_eq: "\<lparr>path = (if falsy lp then [] else the lp), name = n, fsize = z, hash = h, index = i\<rparr> = mf"
  proof (cases lp)
    case None
    then show ?thesis by (simp add: mf_def reconciled_def fi lp_def [symmetric] falsy_def)
  next
    case (Some a)
    then show ?thesis by (auto simp: mf_def reconciled_def fi lp_def [symmetric] falsy_def)
  qed
  define s1 where "s1 = s\<lparr>playlist := add_file mf (playlist s)\<rparr>"
  define s2 where "s2 = (if falsy lp then s1\<lparr>missing_files := AList.update i mf (missing_files s1)\<rparr> else s1)"
  have step: "handle_playlist_info_loop e (fi # rest) s = handle_playlist_info_loop e rest s2"
    unfolding handle_playlist_info_loop_step [OF fm fi] Let_def mf_eq s1_def [symmetric] s2_def ..
  have fp: "folder_path s2 = folder_path s" by (simp add: s2_def s1_def)
  have lf: "local_files e s2 = local_files e s" by (rule local_files_cong [OF fp])
  have rec: "reconciled e s2 = reconciled e s"
    by (rule ext) (simp add: reconciled_def first_match_cong [OF fp])
  have valid_rest: "\<forall>fi \<in> set rest. valid_file_info fi" using Cons.prems(1) by simp
  have readable2: "\<forall>p \<in> set (local_files e s2). file_hash e p \<noteq> None"
    using Cons.prems(2) unfolding lf .
  from Cons.IH [OF valid_rest readable2] obtain s' where
    s': "handle_playlist_info_loop e rest s2 = (None, s')"
        "media_files (playlist s') = media_files (playlist s2) @ map (reconciled e s2) rest"
        "current_index (playlist s') = current_index (playlist s2)"
        "fst ` set (missing_files s2) \<subseteq> fst ` set (missing_files s')"
        "\<forall>fi \<in> set rest. first_match e s2 (the (fi_hash fi)) = None \<longrightarrow>
                 the (fi_index fi) \<in> fst ` set (missing_files s')"
    by blast
  have pl2: "media_files (playlist s2) = media_files (playlist s) @ [mf]"
            "current_index (playlist s2) = current_index (playlist s)"
    by (simp_all add: s2_def s1_def add_file_def)
  have ms2: "fst ` set (missing_files s) \<subseteq> fst ` set (missing_files s2)"
    by (auto simp: s2_def s1_def dom_update)
  have here: "lp = None \<longrightarrow> i \<in> fst ` set (missing_files s2)"
    by (auto simp: s2_def s1_def dom_update falsy_def)
  have rest_missing: "\<forall>fi \<in> set rest. first_match e s (the (fi_hash fi)) = None \<longrightarrow>
                 the (fi_index fi) \<in> fst ` set (missing_files s')"
    using s'(5) unfolding first_match_cong [OF fp] .
  have fi_missing: "first_match e s (the (fi_hash fi)) = None \<longrightarrow>
                 the (fi_index fi) \<in> fst ` set (missing_files s')"
    using here s'(4) by (auto simp: fi lp_def)
  show ?case
  proof (intro exI conjI)
    show "handle_playlist_info_loop e (fi # rest) s = (None, s')" using step s'(1) by simp
    show "media_files (playlist s') = media_files (playlist s) @ map (reconciled e s) (fi # rest)"
      using s'(2) pl2(1) rec by (simp add: mf_def)
    show "current_index (playlist s') = current_index (playlist s)" using s'(3) pl2(2) by simp
    show "fst ` set (missing_files s) \<subseteq> fst ` set (missing_files s')" using ms2 s'(4) by blast
    show "\<forall>fi \<in> set (fi # rest). first_match e s (the (fi_hash fi)) = None \<longrightarrow>
                 the (fi_index fi) \<in> fst ` set (missing_files s')"
      using rest_missing fi_missing by simp
  qed
qed

lemma local_files_reset: "local_files e (s\<lparr>playlist := p\<rparr>) = local_files e s"
  by (simp add: local_files_def)

lemma first_match_reset: "first_match e (s\<lparr>playlist := p\<rparr>) h = first_match e s h"
  by (simp add: first_match_def local_files_reset)

lemma reconciled_reset: "reconciled e (s\<lparr>playlist := p\<rparr>) = reconciled e s"
  by (rule ext) (simp add: reconciled_def first_match_reset)

text \<open>
  C1 (as the code has it). For a \<^verbatim>\<open>playlist_info\<close> message whose entries all carry
  name, size, hash and index, handled where every scanned local file can be fingerprinted:
  the handler returns normally; the rebuilt Playlist has as many entries as announced,
  with the announced indices in the announced order and the announced hashes; an entry
  whose hash is the fingerprint of a local file gets the path of the first such file in
  scan order; an entry without a match gets the empty path and its index is a key of
  \<^verbatim>\<open>missing_files\<close>.
\<close>

theorem handle_playlist_info_reconciles:
  assumes "\<forall>fi \<in> set playlist_info. valid_file_info fi"
    and "\<forall>p \<in> set (local_files e s). file_hash e p \<noteq> None"
  shows "\<exists>s'. handle_playlist_info e playlist_info s = (None, s')
           \<and> length (media_files (playlist s')) = length playlist_info
           \<and> map index (media_files (playlist s')) = map (\<lambda>fi. the (fi_index fi)) playlist_info
           \<and> (\<forall>k < length playlist_info.
                 hash (media_files (playlist s') ! k) = the (fi_hash (playlist_info ! k))
                 \<and> (case first_match e s (the (fi_hash (playlist_info ! k))) of
                      Some p \<Rightarrow> path (media_files (playlist s') ! k) = p
                    | None \<Rightarrow>
                        path (media_files (playlist s') ! k) = []
                        \<and> index (media_files (playlist s') ! k) \<in> fst ` set (missing_files s')))"
proof -
  define s0 where "s0 = s\<lparr>playlist := Playlist_init\<rparr>"
  have lf: "local_files e s0 = local_files e s"
    unfolding s0_def by (rule local_files_reset)
  have readable: "\<forall>p \<in> set (local_files e s0). file_hash e p \<noteq> None"
    using assms(2) unfolding lf .
  from handle_playlist_info_loop_ok [OF assms(1) readable] obtain s' where
    run: "handle_playlist_info_loop e playlist_info s0 = (None, s')"
    and files: "media_files (playlist s') = media_files (playlist s0) @ map (reconciled e s0) playlist_info"
    and missing: "\<forall>fi \<in> set playlist_info. first_match e s0 (the (fi_hash fi)) = None \<longrightarrow>
                    the (fi_index fi) \<in> fst ` set (missing_files s')"
    by blast
  have files': "media_files (playlist s') = map (reconciled e s) playlist_info"
    using files unfolding s0_def reconciled_reset by (simp add: Playlist_init_def)
  have missing': "\<forall>fi \<in> set playlist_info. first_match e s (the (fi_hash fi)) = None \<longrightarrow>
                    the (fi_index fi) \<in> fst ` set (missing_files s')"
    using missing unfolding s0_def first_match_reset .
  have entry: "hash (media_files (playlist s') ! k) = the (fi_hash (playlist_info ! k))
                 \<and> (case first_match e s (the (fi_hash (playlist_info ! k))) of
                      Some p \<Rightarrow> path (media_files (playlist s') ! k) = p
                    | None \<Rightarrow>
                        path (media_files (playlist s') ! k) = []
                        \<and> index (media_files (playlist s') ! k) \<in> fst ` set (missing_files s'))"
    if k: "k < length playlist_info" for k
  proof -
    have mem: "playlist_info ! k \<in> set playlist_info" using k by simp
    have at: "media_files (playlist s') ! k = reconciled e s (playlist_info ! k)"
      using k by (simp add: files')
    show ?thesis
    proof (cases "first_match e s (the (fi_hash (playlist_info ! k)))")
      case None
      with missing' mem have "the (fi_index (playlist_info ! k)) \<in> fst ` set (missing_files s')"
        by blast
      with None show ?thesis by (simp add: at reconciled_def)
    next
      case (Some p)
      then show ?thesis by (simp add: at reconciled_def)
    qed
  qed
  show ?thesis
  proof (intro exI conjI allI impI)
    show "handle_playlist_info e playlist_info s = (None, s')"
      using run by (simp add: handle_playlist_info_def s0_def)
    show "length (media_files (playlist s')) = length playlist_info"
      by (simp add: files')
    show "map index (media_files (playlist s')) = map (\<lambda>fi. the (fi_index fi)) playlist_info"
      by (simp add: files' reconciled_def)
  qed (use entry in blast)+
qed

theorem handle_playlist_info_reconciles_witness:
  "list_all valid_file_info ex_playlist_info
   \<and> list_all (\<lambda>p. file_hash ex_env p \<noteq> None) (local_files ex_env ex_client)
   \<and> first_match ex_env ex_client ''h1'' = None
   \<and> first_match ex_env ex_client ''h2'' = Some ''/m/b.mp4''
   \<and> (\<exists>s'. handle_playlist_info ex_env ex_playlist_info ex_client = (None, s')
         \<and> length (media_files (playlist s')) = 2
         \<and> map index (media_files (playlist s')) = [0, 1]
         \<and> path (media_files (playlist s') ! 0) = []
         \<and> 0 \<in> fst ` set (missing_files s')
         \<and> path (media_files (playlist s') ! 1) = ''/m/b.mp4'')"
proof -
  have lf: "local_files ex_env ex_client = [''/m/b.mp4'']"
    by (simp add: local_files_def ex_env_def ex_client_def)
  have v: "\<forall>fi \<in> set ex_playlist_info. valid_file_info fi"
    by (simp add: ex_playlist_info_def valid_file_info_def)
  have r: "\<forall>p \<in> set (local_files ex_env ex_client). file_hash ex_env p \<noteq> None"
    by (simp add: lf) (simp add: ex_env_def)
  have m1: "first_match ex_env ex_client ''h1'' = None"
    by (simp add: first_match_def lf) (simp add: ex_env_def)
  have m2: "first_match ex_env ex_client ''h2'' = Some ''/m/b.mp4''"
    by (simp add: first_match_def lf) (simp add: ex_env_def)
  from handle_playlist_info_reconciles [OF v r] obtain s' where
    run: "handle_playlist_info ex_env ex_playlist_info ex_client = (None, s')"
    and len: "length (media_files (playlist s')) = length ex_playlist_info"
    and idx: "map index (media_files (playlist s')) = map (\<lambda>fi. the (fi_index fi)) ex_playlist_info"
    and ent: "\<forall>k < length ex_playlist_info.
                 hash (media_files (playlist s') ! k) = the (fi_hash (ex_playlist_info ! k))
                 \<and> (case first_match ex_env ex_client (the (fi_hash (ex_playlist_info ! k))) of
                      Some p \<Rightarrow> path (media_files (playlist s') ! k) = p
                    | None \<Rightarrow>
                        path (media_files (playlist s') ! k) = []
                        \<and> index (media_files (playlist s') ! k) \<in> fst ` set (missing_files s'))"
    by blast
  have i0: "index (media_files (playlist s') ! 0) = 0"
    using arg_cong [OF idx, of "\<lambda>xs. xs ! 0"] len
    by (simp add: ex_playlist_info_def nth_map [symmetric] del: nth_map)
  from ent [rule_format, of 0] have e0:
    "path (media_files (playlist s') ! 0) = [] \<and> index (media_files (playlist s') ! 0) \<in> fst ` set (missing_files s')"
    using m1 by (simp add: ex_playlist_info_def)
  from ent [rule_format, of 1] have e1: "path (media_files (playlist s') ! 1) = ''/m/b.mp4''"
    using m2 by (simp add: ex_playlist_info_def)
  have "length (media_files (playlist s')) = 2" using len by (simp add: ex_playlist_info_def)
  moreover have "map index (media_files (playlist s')) = [0, 1]"
    using idx by (simp add: ex_playlist_info_def)
  ultimately show ?thesis using v r m1 m2 run e0 e1 i0 by (auto simp: list_all_iff)
qed

theorem handle_playlist_info_reconciles_counterexample:
  "list_all valid_file_info ex_playlist_info
   \<and> length ex_playlist_info = 2
   \<and> local_files ex_env_unreadable ex_client_loaded = [''/m/a.mp4'', ''/m/b.mp4'']
   \<and> file_hash ex_env_unreadable ''/m/a.mp4'' = None
   \<and> handle_playlist_info ex_env_unreadable ex_playlist_info ex_client_loaded = (Some OSError, ex_client)
   \<and> media_files (playlist ex_client) = []
   \<and> receive_commands ex_env_unreadable
        [RecvCommand ((mk_command ''playlist_info'')\<lparr>cmd_playlist := Some ex_playlist_info\<rparr>) 0]
        ex_client_loaded = (Exited, ex_client)"
proof -
  have v: "list_all valid_file_info ex_playlist_info" "length ex_playlist_info = 2"
    by (simp_all add: ex_playlist_info_def valid_file_info_def)
  have lf: "local_files ex_env_unreadable ex_client_loaded = [''/m/a.mp4'', ''/m/b.mp4'']"
    by (simp add: local_files_def ex_env_unreadable_def ex_client_loaded_def ex_client_def)
  have fh: "file_hash ex_env_unreadable ''/m/a.mp4'' = None"
    by (simp add: ex_env_unreadable_def ex_env_def)
  have reset: "ex_client_loaded\<lparr>playlist := Playlist_init\<rparr> = ex_client"
    by (simp add: ex_client_loaded_def ex_client_def)
  have fm: "find_matching_file ex_env_unreadable ex_client fi = Inl OSError" for fi
    by (simp add: find_matching_file_def ex_client_def ex_env_unreadable_def ex_env_def)
  have run: "handle_playlist_info ex_env_unreadable ex_playlist_info ex_client_loaded =
               (Some OSError, ex_client)"
    by (simp add: handle_playlist_info_def reset ex_playlist_info_def fm)
  have e: "media_files (playlist ex_client) = []"
    by (simp add: ex_client_def Playlist_init_def)
  have r: "running ex_client_loaded"
    by (simp add: ex_client_loaded_def ex_client_def)
  have d: "handle_command_main2 ex_env_unreadable 0
             ((mk_command ''playlist_info'')\<lparr>cmd_playlist := Some ex_playlist_info\<rparr>) None
             ex_client_loaded = (Some OSError, ex_client)"
    by (simp add: handle_command_main2_def mk_command_def run)
  show ?thesis using v lf fh run e r d by simp
qed

section \<open>The load gate\<close>

lemma send_command_fields [simp]:
  "player (send_command e c so s) = player s"
  "playlist (send_command e c so s) = playlist s"
  "is_host (send_command e c so s) = is_host s"
  "client_socket (send_command e c so s) = client_socket s"
  "folder_path (send_command e c so s) = folder_path s"
  "running (send_command e c so s) = running s"
  "shuffle_mode (send_command e c so s) = shuffle_mode s"
  "missing_files (send_command e c so s) = missing_files s"
  "closed (send_command e c so s) = closed s"
  by (simp_all add: send_command_def Let_def split: option.splits)

lemma send_command_sends:
  "sends (send_command e c so s) = sends s @ (case so of None \<Rightarrow> [] | Some k \<Rightarrow> [(k, c)])"
  by (simp add: send_command_def Let_def split: option.splits)

text \<open>
  C2 (as the code has it). \<^verbatim>\<open>verify_and_load_file\<close>: when no entry has the index, the
  call fails and changes nothing. When the entry exists and its file does not exist on
  disk, the call fails, the Playlist (with its cursor) and the player (with its loaded
  media) are unchanged, a host changes nothing at all, and a client sends
  \<^verbatim>\<open>request_file\<close> with that index on its connection to the host. When the entry exists
  and its file exists, the call succeeds and the file is loaded; the cursor is set to the
  index when the index is a position of the Playlist (from 0 up to the number of entries,
  exclusive).
\<close>

theorem verify_and_load_file_gate:
  "(find (\<lambda>mf. index mf = i) (media_files (playlist s)) = None \<longrightarrow>
      verify_and_load_file e i s = (False, s))
   \<and> (\<forall>mf. find (\<lambda>mf. index mf = i) (media_files (playlist s)) = Some mf
            \<and> \<not> path_exists e (path mf) \<longrightarrow>
         fst (verify_and_load_file e i s) = False
         \<and> playlist (snd (verify_and_load_file e i s)) = playlist s
         \<and> player (snd (verify_and_load_file e i s)) = player s
         \<and> (is_host s \<longrightarrow> snd (verify_and_load_file e i s) = s)
         \<and> (\<forall>h. \<not> is_host s \<and> client_socket s = Some h \<longrightarrow>
               sends (snd (verify_and_load_file e i s)) =
                 sends s @ [(h, (mk_command ''request_file'')\<lparr>cmd_index := Some i\<rparr>)]))
   \<and> (\<forall>mf. find (\<lambda>mf. index mf = i) (media_files (playlist s)) = Some mf
            \<and> path_exists e (path mf) \<longrightarrow>
         fst (verify_and_load_file e i s) = True
         \<and> media_files (playlist (snd (verify_and_load_file e i s))) = media_files (playlist s)
         \<and> media (player (snd (verify_and_load_file e i s))) = Some (path mf)
         \<and> (0 \<le> i \<and> i < int (length (media_files (playlist s))) \<longrightarrow>
               current_index (playlist (snd (verify_and_load_file e i s))) = i))"
proof (intro conjI allI impI)
  assume "find (\<lambda>mf. index mf = i) (media_files (playlist s)) = None"
  then show "verify_and_load_file e i s = (False, s)"
    by (simp add: verify_and_load_file_def)
next
  fix mf
  assume a: "find (\<lambda>mf. index mf = i) (media_files (playlist s)) = Some mf
               \<and> \<not> path_exists e (path mf)"
  then have v: "verify_and_load_file e i s = (False, request_file e i s)"
    by (simp add: verify_and_load_file_def)
  show "fst (verify_and_load_file e i s) = False" by (simp add: v)
  show "playlist (snd (verify_and_load_file e i s)) = playlist s"
    by (simp add: v request_file_def)
  show "player (snd (verify_and_load_file e i s)) = player s"
    by (simp add: v request_file_def)
  show "snd (verify_and_load_file e i s) = s" if "is_host s"
    using that by (simp add: v request_file_def)
  show "sends (snd (verify_and_load_file e i s)) =
          sends s @ [(h, (mk_command ''request_file'')\<lparr>cmd_index := Some i\<rparr>)]"
    if "\<not> is_host s \<and> client_socket s = Some h" for h
    using that by (simp add: v request_file_def send_command_sends)
next
  fix mf
  assume a: "find (\<lambda>mf. index mf = i) (media_files (playlist s)) = Some mf
               \<and> path_exists e (path mf)"
  then have v: "verify_and_load_file e i s =
             (True, set_media (path mf) (s\<lparr>playlist := snd (set_current_index i (playlist s))\<rparr>))"
    by (simp add: verify_and_load_file_def)
  show "fst (verify_and_load_file e i s) = True" by (simp add: v)
  show "media_files (playlist (snd (verify_and_load_file e i s))) = media_files (playlist s)"
    by (simp add: v set_media_def set_current_index_def)
  show "media (player (snd (verify_and_load_file e i s))) = Some (path mf)"
    by (simp add: v set_media_def)
  show "current_index (playlist (snd (verify_and_load_file e i s))) = i"
    if "0 \<le> i \<and> i < int (length (media_files (playlist s)))"
    using that by (simp add: v set_media_def set_current_index_def)
qed

theorem verify_and_load_file_gate_witness:
  "find (\<lambda>mf. index mf = 5) (media_files (playlist ex_client_loaded)) = None
   \<and> verify_and_load_file ex_env 5 ex_client_loaded = (False, ex_client_loaded)
   \<and> find (\<lambda>mf. index mf = 0) (media_files (playlist ex_client_loaded)) = Some ex_file_a
   \<and> \<not> path_exists ex_env (path ex_file_a)
   \<and> \<not> is_host ex_client_loaded \<and> client_socket ex_client_loaded = Some 0
   \<and> fst (verify_and_load_file ex_env 0 ex_client_loaded) = False
   \<and> playlist (snd (verify_and_load_file ex_env 0 ex_client_loaded)) = playlist ex_client_loaded
   \<and> player (snd (verify_and_load_file ex_env 0 ex_client_loaded)) = player ex_client_loaded
   \<and> sends (snd (verify_and_load_file ex_env 0 ex_client_loaded)) =
        [(0, (mk_command ''request_file'')\<lparr>cmd_index := Some 0\<rparr>)]
   \<and> find (\<lambda>mf. index mf = 1) (media_files (playlist ex_client_loaded)) = Some ex_file_b
   \<and> path_exists ex_env (path ex_file_b)
   \<and> length (media_files (playlist ex_client_loaded)) = 2
   \<and> fst (verify_and_load_file ex_env 1 ex_client_loaded) = True
   \<and> current_index (playlist (snd (verify_and_load_file ex_env 1 ex_client_loaded))) = 1
   \<and> media (player (snd (verify_and_load_file ex_env 1 ex_client_loaded))) = Some ''/m/b.mp4''"
proof -
  have pl: "media_files (playlist ex_client_loaded) = [ex_file_a, ex_file_b]"
    by (simp add: ex_client_loaded_def ex_playlist_def)
  have f5: "find (\<lambda>mf. index mf = 5) (media_files (playlist ex_client_loaded)) = None"
    by (simp add: pl ex_file_a_def ex_file_b_def)
  have f0: "find (\<lambda>mf. index mf = 0) (media_files (playlist ex_client_loaded)) = Some ex_file_a"
    by (simp add: pl ex_file_a_def ex_file_b_def)
  have f1: "find (\<lambda>mf. index mf = 1) (media_files (playlist ex_client_loaded)) = Some ex_file_b"
    by (simp add: pl ex_file_a_def ex_file_b_def)
  have na: "\<not> path_exists ex_env (path ex_file_a)"
    by (simp add: path_exists_def ex_file_a_def)
  have eb: "path_exists ex_env (path ex_file_b)"
    by (simp add: path_exists_def ex_file_b_def ex_env_def)
  have cl: "\<not> is_host ex_client_loaded \<and> client_socket ex_client_loaded = Some 0"
    by (simp add: ex_client_loaded_def ex_client_def)
  have se: "sends ex_client_loaded = []"
    by (simp add: ex_client_loaded_def ex_client_def)
  have len: "length (media_files (playlist ex_client_loaded)) = 2"
    by (simp add: pl)
  have pb: "path ex_file_b = ''/m/b.mp4''" by (simp add: ex_file_b_def)
  note g5 = verify_and_load_file_gate [of 5 ex_client_loaded ex_env]
  note g0 = verify_and_load_file_gate [of 0 ex_client_loaded ex_env]
  note g1 = verify_and_load_file_gate [of 1 ex_client_loaded ex_env]
  show ?thesis
    using g5 g0 g1 f5 f0 f1 na eb cl len se pb by simp
qed

theorem verify_and_load_file_gate_counterexample:
  "list_all valid_file_info ex_playlist_info_5
   \<and> handle_playlist_info ex_env ex_playlist_info_5 ex_client = (None, ex_client_5)
   \<and> find (\<lambda>mf. index mf = 5) (media_files (playlist ex_client_5)) = Some (ex_file_b\<lparr>index := 5\<rparr>)
   \<and> path_exists ex_env (path (ex_file_b\<lparr>index := 5\<rparr>))
   \<and> current_index (playlist ex_client_5) = - 1
   \<and> fst (verify_and_load_file ex_env 5 ex_client_5) = True
   \<and> media (player (snd (verify_and_load_file ex_env 5 ex_client_5))) = Some ''/m/b.mp4''
   \<and> current_index (playlist (snd (verify_and_load_file ex_env 5 ex_client_5))) = - 1"
proof -
  have v: "list_all valid_file_info ex_playlist_info_5"
    by (simp add: ex_playlist_info_5_def valid_file_info_def)
  have fm: "find_matching_file ex_env s
              \<lparr>fi_name = Some ''b.mp4'', fi_size = Some 20, fi_hash = Some ''h2'', fi_index = Some 5\<rparr>
              = Inr (Some ''/m/b.mp4'')"
    if "folder_path s = Some ''/m''" for s
    using that by (simp add: find_matching_file_def ex_env_def)
  have run: "handle_playlist_info ex_env ex_playlist_info_5 ex_client = (None, ex_client_5)"
    by (simp add: handle_playlist_info_def ex_playlist_info_5_def fm ex_client_def falsy_def
                  add_file_def Playlist_init_def ex_client_5_def ex_file_b_def Let_def)
  have pl: "media_files (playlist ex_client_5) = [ex_file_b\<lparr>index := 5\<rparr>]"
           "current_index (playlist ex_client_5) = - 1"
    by (simp_all add: ex_client_5_def)
  have f: "find (\<lambda>mf. index mf = 5) (media_files (playlist ex_client_5)) = Some (ex_file_b\<lparr>index := 5\<rparr>)"
    by (simp add: pl)
  have ex: "path_exists ex_env (path (ex_file_b\<lparr>index := 5\<rparr>))"
    by (simp add: path_exists_def ex_file_b_def ex_env_def)
  have vl: "verify_and_load_file ex_env 5 ex_client_5 =
              (True, set_media ''/m/b.mp4'' ex_client_5)"
    using f ex by (simp add: verify_and_load_file_def set_current_index_def pl ex_file_b_def)
  show ?thesis
    using v run f ex pl by (simp add: vl set_media_def)
qed

section \<open>Advancing on an empty playlist\<close>

text \<open>
  C7. On a playlist without entries \<^verbatim>\<open>play_next\<close> of \<^verbatim>\<open>main2.py\<close> raises
  (\<^verbatim>\<open>ZeroDivisionError\<close>, or \<^verbatim>\<open>ValueError\<close> in shuffle mode), while
  \<^verbatim>\<open>Playlist.next_file\<close>, \<^verbatim>\<open>Playlist.previous_file\<close> and \<^verbatim>\<open>VLCSync.next_file\<close>
  return no entry and change nothing. The cursor arithmetic on a non-empty playlist is
  \<open>next_file_nonempty\<close> and \<open>previous_file_nonempty\<close> above.
\<close>

theorem play_next_empty_playlist:
  "media_files (playlist s) = [] \<longrightarrow>
     play_next e s = (Some (if shuffle_mode s then ValueError else ZeroDivisionError), s)
     \<and> VLCSync_next_file e s = s
     \<and> next_file (playlist s) = (None, playlist s)
     \<and> previous_file (playlist s) = (None, playlist s)"
  by (simp add: play_next_def VLCSync_next_file_def next_file_def previous_file_def Let_def)

theorem play_next_empty_playlist_witness:
  "media_files (playlist ex_host) = []
   \<and> play_next ex_env ex_host = (Some ZeroDivisionError, ex_host)
   \<and> VLCSync_next_file ex_env ex_host = ex_host"
proof -
  have e: "media_files (playlist ex_host) = []" by (simp add: ex_host_def Playlist_init_def)
  have sh: "\<not> shuffle_mode ex_host" by (simp add: ex_host_def)
  from play_next_empty_playlist [of ex_host ex_env] e sh show ?thesis by simp
qed

section \<open>Clock synchronisation\<close>

lemma set_time_fields [simp]:
  "is_host (set_time t s) = is_host s"
  "client_socket (set_time t s) = client_socket s"
  "is_playing (set_time t s) = is_playing s"
  "get_time (set_time t s) = t"
  "rate (player (set_time t s)) = rate (player s)"
  "media (player (set_time t s)) = media (player s)"
  "playing (player (set_time t s)) = playing (player s)"
  "position (player (set_time t s)) = t"
  "sends (set_time t s) = sends s"
  "playlist (set_time t s) = playlist s"
  by (simp_all add: set_time_def is_playing_def get_time_def)

lemma set_rate_fields [simp]:
  "is_host (set_rate r s) = is_host s"
  "client_socket (set_rate r s) = client_socket s"
  "is_playing (set_rate r s) = is_playing s"
  "get_time (set_rate r s) = get_time s"
  "rate (player (set_rate r s)) = r"
  "media (player (set_rate r s)) = media (player s)"
  "playing (player (set_rate r s)) = playing (player s)"
  "position (player (set_rate r s)) = position (player s)"
  "sends (set_rate r s) = sends s"
  "playlist (set_rate r s) = playlist s"
  by (simp_all add: set_rate_def is_playing_def get_time_def)

lemma handle_sync_main2_eq:
  assumes "\<not> is_host s" and "cmd_time c = Some P" and "cmd_sync_time c = Some T0"
  shows "handle_sync_main2 T1 c s =
           (None, if is_playing s \<and> \<bar>get_time s - (P + (T1 - T0))\<bar> \<le> 100 then s
                  else set_time (P + (T1 - T0)) s)"
  using assms by (simp add: handle_sync_main2_def Let_def)

lemma measure_latency_fields [simp]:
  "player (snd (measure_latency e probe s)) = player s"
  "is_host (snd (measure_latency e probe s)) = is_host s"
  "client_socket (snd (measure_latency e probe s)) = client_socket s"
  "is_playing (snd (measure_latency e probe s)) = is_playing s"
  "get_time (snd (measure_latency e probe s)) = get_time s"
  by (simp_all add: measure_latency_def Let_def is_playing_def get_time_def split: option.splits)

lemma measure_latency_fst_cong:
  assumes "is_host s' = is_host s" and "client_socket s' = client_socket s"
  shows "fst (measure_latency e probe s') = fst (measure_latency e probe s)"
  using assms by (simp add: measure_latency_def Let_def split: option.splits)

lemma handle_sync_main_eq:
  assumes "\<not> is_host s" and "is_playing s" and "cmd_time c = Some ht"
  shows "handle_sync_main e probe c s =
           (None,
            let s1 = snd (measure_latency e probe s);
                t = ht + py_int (fst (measure_latency e probe s) / 2);
                d = get_time s - t
            in if \<bar>d\<bar> > 1000 then set_time t s1
               else if \<bar>d\<bar> > 100 then (if d > 0 then set_rate 0.95 s1 else set_rate 1.05 s1)
               else set_rate 1 s1)"
  using assms by (simp add: handle_sync_main_def Let_def case_prod_beta)

lemma handle_sync_main_idle:
  assumes "is_host s \<or> \<not> is_playing s"
  shows "handle_sync_main e probe c s = (None, s)"
  using assms by (auto simp: handle_sync_main_def)

text \<open>
  C4 (as the code has it). A \<^verbatim>\<open>main2.py\<close> client handling, at its wall-clock reading
  \<open>T1\<close>, a \<^verbatim>\<open>sync\<close> message with host position \<open>P\<close> and host timestamp \<open>T0\<close> uses the
  target \<open>P + (T1 - T0)\<close>, without any latency term: a playing client whose position is
  within 100 ms of that target is left exactly as it was, and every other client gets its
  position set to the target. A \<^verbatim>\<open>main.py\<close> client reads no clock and no timestamp: when
  the measured latency is zero its target is \<open>P\<close>; a playing client within 100 ms of \<open>P\<close>
  keeps its position (its rate is set to 1.0), one further than 1000 ms away is moved to
  \<open>P\<close>.
\<close>

theorem handle_sync_target:
  "(\<not> is_host s \<and> cmd_time c = Some P \<and> cmd_sync_time c = Some T0 \<longrightarrow>
      handle_sync_main2 T1 c s =
        (None, if is_playing s \<and> \<bar>get_time s - (P + (T1 - T0))\<bar> \<le> 100 then s
               else set_time (P + (T1 - T0)) s))
   \<and> (\<not> is_host s \<and> is_playing s \<and> cmd_time c = Some P
        \<and> fst (measure_latency e probe s) = 0 \<longrightarrow>
        (\<bar>get_time s - P\<bar> \<le> 100 \<longrightarrow>
           get_time (snd (handle_sync_main e probe c s)) = get_time s
           \<and> rate (player (snd (handle_sync_main e probe c s))) = 1)
        \<and> (1000 < \<bar>get_time s - P\<bar> \<longrightarrow>
             get_time (snd (handle_sync_main e probe c s)) = P))"
proof (intro conjI impI)
  assume "\<not> is_host s \<and> cmd_time c = Some P \<and> cmd_sync_time c = Some T0"
  then show "handle_sync_main2 T1 c s =
        (None, if is_playing s \<and> \<bar>get_time s - (P + (T1 - T0))\<bar> \<le> 100 then s
               else set_time (P + (T1 - T0)) s)"
    using handle_sync_main2_eq by blast
next
  assume a: "\<not> is_host s \<and> is_playing s \<and> cmd_time c = Some P
        \<and> fst (measure_latency e probe s) = 0"
  assume "\<bar>get_time s - P\<bar> \<le> 100"
  with a show "get_time (snd (handle_sync_main e probe c s)) = get_time s"
    by (simp add: handle_sync_main_eq py_int_def Let_def)
next
  assume a: "\<not> is_host s \<and> is_playing s \<and> cmd_time c = Some P
        \<and> fst (measure_latency e probe s) = 0"
  assume "\<bar>get_time s - P\<bar> \<le> 100"
  with a show "rate (player (snd (handle_sync_main e probe c s))) = 1"
    by (simp add: handle_sync_main_eq py_int_def Let_def)
next
  assume a: "\<not> is_host s \<and> is_playing s \<and> cmd_time c = Some P
        \<and> fst (measure_latency e probe s) = 0"
  assume "1000 < \<bar>get_time s - P\<bar>"
  with a show "get_time (snd (handle_sync_main e probe c s)) = P"
    by (simp add: handle_sync_main_eq py_int_def Let_def)
qed

text \<open>
  C3 (as the code has it). For a client that is playing and a \<^verbatim>\<open>sync\<close> message with its
  \<^verbatim>\<open>time\<close>, let \<open>d\<close> be the client's position minus the target. \<^verbatim>\<open>main.py\<close> (target: host
  time plus half the measured round trip, truncated): for \<open>\<bar>d\<bar> \<le> 100\<close> the position is
  kept and the rate is set to 1.0; for \<open>100 < \<bar>d\<bar> \<le> 1000\<close> the position is kept and the
  rate becomes 0.95 when the client is ahead and 1.05 when it is behind; for
  \<open>\<bar>d\<bar> > 1000\<close> the position is set to the target and the rate is kept. \<^verbatim>\<open>main2.py\<close>
  (target: host time plus the wall-clock difference): for \<open>\<bar>d\<bar> \<le> 100\<close> nothing changes;
  for every \<open>\<bar>d\<bar> > 100\<close> the position is set to the target and the rate is kept.
\<close>

theorem handle_sync_thresholds:
  "\<not> is_host s \<and> is_playing s \<and> cmd_time c = Some h \<longrightarrow>
     (let t = h + py_int (fst (measure_latency e probe s) / 2);
          d = get_time s - t;
          s' = snd (handle_sync_main e probe c s)
      in (\<bar>d\<bar> \<le> 100 \<longrightarrow> get_time s' = get_time s \<and> rate (player s') = 1)
         \<and> (100 < \<bar>d\<bar> \<and> \<bar>d\<bar> \<le> 1000 \<longrightarrow>
               get_time s' = get_time s \<and> rate (player s') = (if 0 < d then 0.95 else 1.05))
         \<and> (1000 < \<bar>d\<bar> \<longrightarrow> get_time s' = t \<and> rate (player s') = rate (player s)))
     \<and> (\<forall>T0. cmd_sync_time c = Some T0 \<longrightarrow>
           (let t = h + (T1 - T0);
                d = get_time s - t;
                s' = snd (handle_sync_main2 T1 c s)
            in (\<bar>d\<bar> \<le> 100 \<longrightarrow> s' = s)
               \<and> (100 < \<bar>d\<bar> \<longrightarrow> get_time s' = t \<and> rate (player s') = rate (player s))))"
proof (intro impI conjI allI)
  assume a: "\<not> is_host s \<and> is_playing s \<and> cmd_time c = Some h"
  then show "let t = h + py_int (fst (measure_latency e probe s) / 2);
          d = get_time s - t;
          s' = snd (handle_sync_main e probe c s)
      in (\<bar>d\<bar> \<le> 100 \<longrightarrow> get_time s' = get_time s \<and> rate (player s') = 1)
         \<and> (100 < \<bar>d\<bar> \<and> \<bar>d\<bar> \<le> 1000 \<longrightarrow>
               get_time s' = get_time s \<and> rate (player s') = (if 0 < d then 0.95 else 1.05))
         \<and> (1000 < \<bar>d\<bar> \<longrightarrow> get_time s' = t \<and> rate (player s') = rate (player s))"
    by (simp add: handle_sync_main_eq Let_def)
next
  fix T0
  assume a: "\<not> is_host s \<and> is_playing s \<and> cmd_time c = Some h"
    and b: "cmd_sync_time c = Some T0"
  then show "let t = h + (T1 - T0);
                d = get_time s - t;
                s' = snd (handle_sync_main2 T1 c s)
            in (\<bar>d\<bar> \<le> 100 \<longrightarrow> s' = s)
               \<and> (100 < \<bar>d\<bar> \<longrightarrow> get_time s' = t \<and> rate (player s') = rate (player s))"
    by (simp add: handle_sync_main2_eq Let_def)
qed

lemma ex_client_at_fields:
  "\<not> is_host (ex_client_at b p r)"
  "is_playing (ex_client_at b p r) = b"
  "get_time (ex_client_at b p r) = p"
  "rate (player (ex_client_at b p r)) = r"
  "client_socket (ex_client_at b p r) = Some 0"
  by (simp_all add: ex_client_at_def ex_client_def is_playing_def get_time_def)

lemma ex_sync_fields: "cmd_time ex_sync = Some 0" "cmd_sync_time ex_sync = Some 1000"
  by (simp_all add: ex_sync_def mk_command_def)

lemma ex_latency: "fst (measure_latency ex_env None (ex_client_at b p r)) = 0"
  by (simp add: measure_latency_def ex_client_at_fields Let_def)

theorem handle_sync_target_witness:
  "\<not> is_host (ex_client_at True 2050 1) \<and> cmd_time ex_sync = Some 0 \<and> cmd_sync_time ex_sync = Some 1000
   \<and> is_playing (ex_client_at True 2050 1)
   \<and> \<bar>get_time (ex_client_at True 2050 1) - (0 + (3000 - 1000))\<bar> \<le> 100
   \<and> handle_sync_main2 3000 ex_sync (ex_client_at True 2050 1) = (None, ex_client_at True 2050 1)
   \<and> handle_sync_main2 3000 ex_sync (ex_client_at True 2500 1) = (None, ex_client_at True 2000 1)
   \<and> fst (measure_latency ex_env None (ex_client_at True 5000 1)) = 0
   \<and> get_time (snd (handle_sync_main ex_env None ex_sync (ex_client_at True 5000 1))) = 0"
proof -
  have st: "set_time 2000 (ex_client_at True 2500 1) = ex_client_at True 2000 1"
    by (simp add: ex_client_at_def set_time_def)
  from handle_sync_target [of "ex_client_at True 2050 1" ex_sync 0 1000 3000]
       handle_sync_target [of "ex_client_at True 2500 1" ex_sync 0 1000 3000]
       handle_sync_target [of "ex_client_at True 5000 1" ex_sync 0 1000 3000 ex_env None]
  show ?thesis by (simp add: ex_client_at_fields ex_sync_fields ex_latency st)
qed

theorem handle_sync_target_counterexample:
  "is_playing (ex_client_at True 5000 1)
   \<and> cmd_time ex_sync = Some 0 \<and> cmd_sync_time ex_sync = Some 1000
   \<and> fst (measure_latency ex_env None (ex_client_at True 5000 1)) = 0
   \<and> get_time (snd (handle_sync_main ex_env None ex_sync (ex_client_at True 5000 1))) = 0
   \<and> (0::int) + (3000 - 1000) = 2000"
  by (simp add: handle_sync_main_eq [where ht = 0] ex_client_at_fields ex_sync_fields
                ex_latency py_int_def Let_def)

theorem handle_sync_thresholds_witness:
  "\<not> is_host (ex_client_at True 500 1) \<and> is_playing (ex_client_at True 500 1)
   \<and> cmd_time ex_sync = Some 0 \<and> cmd_sync_time ex_sync = Some 1000
   \<and> get_time (snd (handle_sync_main ex_env None ex_sync (ex_client_at True 500 1))) = 500
   \<and> rate (player (snd (handle_sync_main ex_env None ex_sync (ex_client_at True 500 1)))) = 0.95
   \<and> get_time (snd (handle_sync_main ex_env None ex_sync (ex_client_at True 5000 1))) = 0
   \<and> rate (player (snd (handle_sync_main ex_env None ex_sync (ex_client_at True 50 0.95)))) = 1
   \<and> get_time (snd (handle_sync_main2 1000 ex_sync (ex_client_at True 500 1))) = 0
   \<and> rate (player (snd (handle_sync_main2 1000 ex_sync (ex_client_at True 500 1)))) = 1
   \<and> snd (handle_sync_main2 1000 ex_sync (ex_client_at True 50 1)) = ex_client_at True 50 1"
proof -
  note t1 = handle_sync_thresholds [of "ex_client_at True 500 1" ex_sync 0 ex_env None 1000]
  note t2 = handle_sync_thresholds [of "ex_client_at True 5000 1" ex_sync 0 ex_env None 1000]
  note t3 = handle_sync_thresholds [of "ex_client_at True 50 0.95" ex_sync 0 ex_env None 1000]
  note t4 = handle_sync_thresholds [of "ex_client_at True 50 1" ex_sync 0 ex_env None 1000]
  show ?thesis
    using t1 t2 t3 t4
    by (simp add: ex_client_at_fields ex_sync_fields ex_latency py_int_def Let_def)
qed

theorem handle_sync_thresholds_counterexample:
  "is_playing (ex_client_at True 500 1)
   \<and> \<bar>get_time (ex_client_at True 500 1) - (0 + (1000 - 1000))\<bar> = 500
   \<and> handle_sync_main2 1000 ex_sync (ex_client_at True 500 1) = (None, ex_client_at True 0 1)
   \<and> get_time (ex_client_at True 0 1) = 0
   \<and> rate (player (ex_client_at True 0 1)) = 1"
proof -
  have "set_time 0 (ex_client_at True 500 1) = ex_client_at True 0 1"
    by (simp add: ex_client_at_def set_time_def)
  then show ?thesis
    by (simp add: handle_sync_main2_eq [where P = 0 and ?T0.0 = 1000]
                  ex_client_at_fields ex_sync_fields)
qed


text \<open>
  C6 (as the code has it). A client that is not playing and receives a \<^verbatim>\<open>sync\<close> message:
  in \<^verbatim>\<open>main2.py\<close> its position is set to the target (host time plus the wall-clock
  difference), nothing else changes and it is still not playing; in \<^verbatim>\<open>main.py\<close> the
  message is ignored.
\<close>

theorem handle_sync_not_playing:
  "(\<not> is_host s \<and> \<not> is_playing s \<and> cmd_time c = Some P \<and> cmd_sync_time c = Some T0 \<longrightarrow>
      handle_sync_main2 T1 c s = (None, set_time (P + (T1 - T0)) s)
      \<and> get_time (snd (handle_sync_main2 T1 c s)) = P + (T1 - T0)
      \<and> \<not> is_playing (snd (handle_sync_main2 T1 c s)))
   \<and> (\<not> is_playing s \<longrightarrow> handle_sync_main e probe c s = (None, s))"
  by (simp add: handle_sync_main2_eq handle_sync_main_idle)

theorem handle_sync_not_playing_witness:
  "\<not> is_host (ex_client_at False 500 1) \<and> \<not> is_playing (ex_client_at False 500 1)
   \<and> cmd_time ex_sync = Some 0 \<and> cmd_sync_time ex_sync = Some 1000
   \<and> handle_sync_main2 3000 ex_sync (ex_client_at False 500 1) = (None, ex_client_at False 2000 1)
   \<and> handle_sync_main ex_env None ex_sync (ex_client_at False 500 1) = (None, ex_client_at False 500 1)"
proof -
  have st: "set_time 2000 (ex_client_at False 500 1) = ex_client_at False 2000 1"
    by (simp add: ex_client_at_def set_time_def)
  from handle_sync_not_playing [of "ex_client_at False 500 1" ex_sync 0 1000 3000 ex_env None]
  show ?thesis by (simp add: ex_client_at_fields ex_sync_fields st)
qed

theorem handle_sync_not_playing_counterexample:
  "\<not> is_playing (ex_client_at False 500 1)
   \<and> cmd_time ex_sync = Some 0
   \<and> fst (measure_latency ex_env None (ex_client_at False 500 1)) = 0
   \<and> handle_sync_main ex_env None ex_sync (ex_client_at False 500 1) = (None, ex_client_at False 500 1)
   \<and> get_time (ex_client_at False 500 1) = 500"
  by (simp add: handle_sync_main_idle ex_client_at_fields ex_sync_fields ex_latency)

lemma set_time_idem: "set_time t (set_time t s) = set_time t s"
  by (simp add: set_time_def)

lemma handle_sync_main2_twice:
  "snd (handle_sync_main2 now c (snd (handle_sync_main2 now c s))) = snd (handle_sync_main2 now c s)"
proof (cases "\<not> is_host s \<and> cmd_time c \<noteq> None \<and> cmd_sync_time c \<noteq> None")
  case True
  then obtain P T0 where c: "cmd_time c = Some P" "cmd_sync_time c = Some T0" and h: "\<not> is_host s"
    by auto
  define t where "t = P + (now - T0)"
  have one: "snd (handle_sync_main2 now c s) =
               (if is_playing s \<and> \<bar>get_time s - t\<bar> \<le> 100 then s else set_time t s)"
    by (simp add: handle_sync_main2_eq [OF h c] t_def)
  show ?thesis
  proof (cases "is_playing s \<and> \<bar>get_time s - t\<bar> \<le> 100")
    case True
    then show ?thesis using one by simp
  next
    case False
    have h': "\<not> is_host (set_time t s)" using h by simp
    have "snd (handle_sync_main2 now c (set_time t s)) = set_time t s"
      by (simp add: handle_sync_main2_eq [OF h' c] t_def [symmetric] set_time_idem)
    then show ?thesis using one False by simp
  qed
next
  case False
  then have "handle_sync_main2 now c s = (None, s) \<or> (\<exists>err. handle_sync_main2 now c s = (Some err, s))"
    by (auto simp: handle_sync_main2_def split: option.splits)
  then show ?thesis by auto
qed

lemma handle_sync_main_twice_active:
  fixes e :: env and probe :: "real option" and s :: VLCSync and c :: command and ht :: int
  assumes h: "\<not> is_host s" and p: "is_playing s" and c: "cmd_time c = Some ht"
  defines "t \<equiv> ht + py_int (fst (measure_latency e probe s) / 2)"
  defines "s1 \<equiv> snd (handle_sync_main e probe c s)"
  defines "s2 \<equiv> snd (handle_sync_main e probe c s1)"
  shows "position (player s2) = position (player s1)"
    and "playing (player s2) = playing (player s1)"
    and "media (player s2) = media (player s1)"
    and "rate (player s2) = (if 1000 < \<bar>get_time s - t\<bar> then 1 else rate (player s1))"
proof -
  define m where "m = snd (measure_latency e probe s)"
  define d where "d = get_time s - t"
  have s1: "s1 = (if \<bar>d\<bar> > 1000 then set_time t m
                  else if \<bar>d\<bar> > 100 then (if d > 0 then set_rate 0.95 m else set_rate 1.05 m)
                  else set_rate 1 m)"
    unfolding s1_def handle_sync_main_eq [OF h p c]
    by (simp add: Let_def t_def d_def m_def)
  have m: "is_host m = is_host s" "client_socket m = client_socket s" "is_playing m = is_playing s"
          "get_time m = get_time s" "player m = player s"
    by (simp_all add: m_def)
  have h1: "\<not> is_host s1" and p1: "is_playing s1" and k1: "client_socket s1 = client_socket s"
    using h p by (simp_all add: s1 m)
  have lat: "fst (measure_latency e probe s1) = fst (measure_latency e probe s)"
    by (rule measure_latency_fst_cong) (use h1 h k1 in simp_all)
  define m1 where "m1 = snd (measure_latency e probe s1)"
  have m1: "player m1 = player s1" by (simp add: m1_def)
  define d1 where "d1 = get_time s1 - t"
  have s2: "s2 = (if \<bar>d1\<bar> > 1000 then set_time t m1
                  else if \<bar>d1\<bar> > 100 then (if d1 > 0 then set_rate 0.95 m1 else set_rate 1.05 m1)
                  else set_rate 1 m1)"
    unfolding s2_def handle_sync_main_eq [OF h1 p1 c]
    by (simp add: Let_def lat t_def d1_def m1_def)
  have g1: "get_time s1 = (if \<bar>d\<bar> > 1000 then t else get_time s)"
    by (simp add: s1 m)
  have d1: "d1 = (if \<bar>d\<bar> > 1000 then 0 else d)"
    by (simp add: d1_def g1 d_def)
  have r1: "rate (player s1) =
              (if \<bar>d\<bar> > 1000 then rate (player s)
               else if \<bar>d\<bar> > 100 then (if d > 0 then 0.95 else 1.05) else 1)"
    by (simp add: s1 m)
  have pos2: "position (player s2) = (if \<bar>d1\<bar> > 1000 then t else position (player s1))"
    by (simp add: s2 m1)
  show "position (player s2) = position (player s1)"
    using pos2 d1 by (simp split: if_splits)
  show "playing (player s2) = playing (player s1)"
    by (simp add: s2 m1)
  show "media (player s2) = media (player s1)"
    by (simp add: s2 m1)
  have r2: "rate (player s2) =
              (if \<bar>d1\<bar> > 1000 then rate (player s1)
               else if \<bar>d1\<bar> > 100 then (if d1 > 0 then 0.95 else 1.05) else 1)"
    by (simp add: s2 m1)
  show "rate (player s2) = (if 1000 < \<bar>get_time s - t\<bar> then 1 else rate (player s1))"
    unfolding d_def [symmetric] using r2 r1 d1 by (simp split: if_splits)
qed

lemma handle_sync_main_no_time:
  assumes "cmd_time c = None"
  shows "snd (handle_sync_main e probe c s) = s"
  using assms by (simp add: handle_sync_main_def)

text \<open>
  C9 (as the code has it). With the same clock reading and the same measured latency,
  handling a \<^verbatim>\<open>sync\<close> message twice leaves a \<^verbatim>\<open>main2.py\<close> client in the same state as
  handling it once. In \<^verbatim>\<open>main.py\<close> the second handling leaves position, playing flag and
  media as the first did, and the rate too, except when the first handling seeked (the
  client was more than 1000 ms from the target): then the second one sets the rate to 1.0.
\<close>

theorem handle_sync_twice:
  "snd (handle_sync_main2 now c (snd (handle_sync_main2 now c s))) = snd (handle_sync_main2 now c s)
   \<and> (let s1 = snd (handle_sync_main e probe c s);
          s2 = snd (handle_sync_main e probe c s1)
      in position (player s2) = position (player s1)
         \<and> playing (player s2) = playing (player s1)
         \<and> media (player s2) = media (player s1)
         \<and> rate (player s2) =
             (case cmd_time c of
                None \<Rightarrow> rate (player s1)
              | Some ht \<Rightarrow>
                  if \<not> is_host s \<and> is_playing s
                     \<and> 1000 < \<bar>get_time s - (ht + py_int (fst (measure_latency e probe s) / 2))\<bar>
                  then 1 else rate (player s1)))"
proof (rule conjI)
  show "snd (handle_sync_main2 now c (snd (handle_sync_main2 now c s))) = snd (handle_sync_main2 now c s)"
    by (rule handle_sync_main2_twice)
next
  show "let s1 = snd (handle_sync_main e probe c s);
          s2 = snd (handle_sync_main e probe c s1)
      in position (player s2) = position (player s1)
         \<and> playing (player s2) = playing (player s1)
         \<and> media (player s2) = media (player s1)
         \<and> rate (player s2) =
             (case cmd_time c of
                None \<Rightarrow> rate (player s1)
              | Some ht \<Rightarrow>
                  if \<not> is_host s \<and> is_playing s
                     \<and> 1000 < \<bar>get_time s - (ht + py_int (fst (measure_latency e probe s) / 2))\<bar>
                  then 1 else rate (player s1))"
  proof (cases "cmd_time c")
    case None
    then show ?thesis by (simp add: handle_sync_main_no_time Let_def)
  next
    case (Some ht)
    show ?thesis
    proof (cases "\<not> is_host s \<and> is_playing s")
      case True
      then have h: "\<not> is_host s" and p: "is_playing s" by simp_all
      note tw = handle_sync_main_twice_active [OF h p Some, of e probe]
      show ?thesis unfolding Let_def using tw True Some by simp
    next
      case False
      then have "handle_sync_main e probe c s = (None, s)"
        by (intro handle_sync_main_idle) auto
      then show ?thesis using False Some by (auto simp: Let_def)
    qed
  qed
qed

theorem handle_sync_twice_witness:
  "snd (handle_sync_main2 3000 ex_sync (snd (handle_sync_main2 3000 ex_sync (ex_client_at True 500 1))))
     = snd (handle_sync_main2 3000 ex_sync (ex_client_at True 500 1))
   \<and> rate (player (snd (handle_sync_main ex_env None ex_sync
              (snd (handle_sync_main ex_env None ex_sync (ex_client_at True 500 1))))))
     = rate (player (snd (handle_sync_main ex_env None ex_sync (ex_client_at True 500 1))))"
  using handle_sync_twice [of 3000 ex_sync "ex_client_at True 500 1" ex_env None]
  by (simp add: Let_def ex_sync_fields ex_client_at_fields ex_latency py_int_def)

theorem handle_sync_twice_counterexample:
  "rate (player (snd (handle_sync_main ex_env None ex_sync (ex_client_at True 5000 0.95)))) = 0.95
   \<and> rate (player (snd (handle_sync_main ex_env None ex_sync
              (snd (handle_sync_main ex_env None ex_sync (ex_client_at True 5000 0.95)))))) = 1
   \<and> position (player (snd (handle_sync_main ex_env None ex_sync (ex_client_at True 5000 0.95)))) = 0"
proof -
  define s1 where "s1 = snd (handle_sync_main ex_env None ex_sync (ex_client_at True 5000 0.95))"
  have one: "s1 = set_time 0 (snd (measure_latency ex_env None (ex_client_at True 5000 0.95)))"
    unfolding s1_def
    by (simp add: handle_sync_main_eq [where ht = 0] ex_client_at_fields ex_sync_fields
                  ex_latency py_int_def Let_def)
  have f1: "\<not> is_host s1" "is_playing s1" "get_time s1 = 0" "rate (player s1) = 0.95"
           "client_socket s1 = Some 0" "position (player s1) = 0"
    by (simp_all add: one ex_client_at_fields)
  have l1: "fst (measure_latency ex_env None s1) = 0"
    by (simp add: measure_latency_def f1 Let_def)
  have two: "rate (player (snd (handle_sync_main ex_env None ex_sync s1))) = 1"
    by (simp add: handle_sync_main_eq [where ht = 0] f1 ex_sync_fields l1 py_int_def Let_def)
  show ?thesis using f1 two unfolding s1_def by simp
qed

section \<open>The dispatcher and the receive loops\<close>

lemma foldl_send_command_sends:
  "sends (foldl (\<lambda>st k. send_command e c (Some k) st) s ks) = sends s @ map (\<lambda>k. (k, c)) ks"
  by (induction ks arbitrary: s) (simp_all add: send_command_sends)

lemma foldl_send_command_player:
  "player (foldl (\<lambda>st k. send_command e c (Some k) st) s ks) = player s"
  by (induction ks arbitrary: s) simp_all

lemma broadcast_command_sends:
  "sends (broadcast_command e c s) = sends s @ map (\<lambda>k. (k, c)) (clients s)"
  by (simp add: broadcast_command_def foldl_send_command_sends)

lemma broadcast_command_player: "player (broadcast_command e c s) = player s"
  by (simp add: broadcast_command_def foldl_send_command_player)

lemma handle_command_main2_request_sync:
  assumes "cmd_type c = Some ''request_sync''"
  shows "handle_command_main2 e now c sk s =
           (None, if is_host s then send_sync_command e now s else s)"
  using assms by (simp add: handle_command_main2_def)

lemma handle_command_main_request_sync:
  assumes "cmd_type c = Some ''request_sync''"
  shows "handle_command_main e probe c sk s = (None, s)"
  using assms by (simp add: handle_command_main_def)

text \<open>
  C8 (as the code has it). On a \<^verbatim>\<open>request_sync\<close> message a \<^verbatim>\<open>main2.py\<close> host that is
  playing sends one \<^verbatim>\<open>sync\<close> message, with its current position and its wall-clock
  reading, on every connection in \<^verbatim>\<open>self.clients\<close>, in order, and leaves its player
  alone; a host that is not playing, and a client, do nothing. \<^verbatim>\<open>main.py\<close> has no such
  command and ignores the message.
\<close>

theorem request_sync_emits:
  "cmd_type c = Some ''request_sync'' \<longrightarrow>
     (is_host s \<and> is_playing s \<longrightarrow>
        fst (handle_command_main2 e now c sk s) = None
        \<and> sends (snd (handle_command_main2 e now c sk s)) =
            sends s @
            map (\<lambda>k. (k, (mk_command ''sync'')
                            \<lparr>cmd_time := Some (get_time s), cmd_sync_time := Some now\<rparr>))
              (clients s)
        \<and> player (snd (handle_command_main2 e now c sk s)) = player s)
     \<and> (\<not> (is_host s \<and> is_playing s) \<longrightarrow> handle_command_main2 e now c sk s = (None, s))
     \<and> handle_command_main e probe c sk s = (None, s)"
  by (simp add: handle_command_main2_request_sync handle_command_main_request_sync
                send_sync_command_def broadcast_command_sends broadcast_command_player)

theorem request_sync_emits_witness:
  "cmd_type (mk_command ''request_sync'') = Some ''request_sync''
   \<and> is_host ex_host_playing \<and> is_playing ex_host_playing
   \<and> clients ex_host_playing = [1, 2]
   \<and> sends (snd (handle_command_main2 ex_env 7000 (mk_command ''request_sync'') (Some 1) ex_host_playing)) =
        [(1, (mk_command ''sync'')\<lparr>cmd_time := Some 4000, cmd_sync_time := Some 7000\<rparr>),
         (2, (mk_command ''sync'')\<lparr>cmd_time := Some 4000, cmd_sync_time := Some 7000\<rparr>)]"
proof -
  have f: "is_host ex_host_playing" "is_playing ex_host_playing" "clients ex_host_playing = [1, 2]"
          "sends ex_host_playing = []" "get_time ex_host_playing = 4000"
    by (simp_all add: ex_host_playing_def ex_host_def is_playing_def get_time_def)
  have t: "cmd_type (mk_command ''request_sync'') = Some ''request_sync''"
    by (simp add: mk_command_def)
  from request_sync_emits [of "mk_command ''request_sync''" ex_host_playing ex_env 7000 "Some 1"]
  show ?thesis using f t by simp
qed

theorem request_sync_emits_counterexample:
  "is_host ex_host \<and> clients ex_host = [1, 2] \<and> sends ex_host = []
   \<and> handle_command_main2 ex_env 7000 (mk_command ''request_sync'') (Some 1) ex_host = (None, ex_host)"
proof -
  have f: "is_host ex_host" "\<not> is_playing ex_host" "clients ex_host = [1, 2]" "sends ex_host = []"
    by (simp_all add: ex_host_def ex_player_def is_playing_def)
  have t: "cmd_type (mk_command ''request_sync'') = Some ''request_sync''"
    by (simp add: mk_command_def)
  show ?thesis
    using f by (simp add: handle_command_main2_request_sync [OF t] send_sync_command_def)
qed

lemma unknown_tag_ignored:
  assumes "cmd_type c = Some t" and "t \<notin> set known_tags"
  shows "handle_command_main2 e now c sk s = (None, s)"
  using assms by (simp add: handle_command_main2_def known_tags_def)

lemma lacks_required_field_raises:
  assumes "lacks_required_field s c"
  shows "\<exists>f. handle_command_main2 e now c sk s = (Some (KeyError f), s)"
  using assms unfolding lacks_required_field_def
proof (elim disjE conjE)
  assume "cmd_type c = None"
  then show ?thesis by (simp add: handle_command_main2_def)
next
  assume "cmd_type c = Some ''playlist_info''" "cmd_playlist c = None"
  then show ?thesis by (simp add: handle_command_main2_def)
next
  assume "cmd_type c = Some ''play_file''" "cmd_index c = None"
  then show ?thesis by (simp add: handle_command_main2_def)
next
  assume "cmd_type c = Some ''seek''" "cmd_time c = None"
  then show ?thesis by (simp add: handle_command_main2_def)
next
  assume "cmd_type c = Some ''sync''" "\<not> is_host s" "cmd_time c = None"
  then show ?thesis by (simp add: handle_command_main2_def handle_sync_main2_def)
next
  assume "cmd_type c = Some ''sync''" "\<not> is_host s" "cmd_sync_time c = None"
  then show ?thesis
    by (cases "cmd_time c") (simp_all add: handle_command_main2_def handle_sync_main2_def)
next
  assume "cmd_type c = Some ''shuffle_state''" "\<not> is_host s" "cmd_enabled c = None"
  then show ?thesis by (simp add: handle_command_main2_def)
next
  assume "cmd_type c = Some ''request_file''" "is_host s" "cmd_index c = None"
  then show ?thesis by (simp add: handle_command_main2_def handle_file_request_def)
qed

text \<open>
  C5 (as the code has it). A message whose tag is none of the known ones is ignored: the
  dispatcher returns normally without changing anything, and both receive loops go on
  with the next read on the same connection. A message without its tag, or without a key
  that the branch for its tag reads by subscript, makes the dispatcher raise
  \<^verbatim>\<open>KeyError\<close>, with nothing changed yet; the receive loop that delivered it then ends
  without reading further: the host's \<^verbatim>\<open>handle_client\<close> removes that connection from
  \<^verbatim>\<open>self.clients\<close> and closes it, the client's \<^verbatim>\<open>receive_commands\<close> stops receiving.
\<close>

theorem malformed_message_handling:
  "(\<forall>t. cmd_type c = Some t \<and> t \<notin> set known_tags \<longrightarrow>
       handle_command_main2 e now c sk s = (None, s)
       \<and> (running s \<longrightarrow>
             handle_client e k (RecvCommand c now # evs) s = handle_client e k evs s
             \<and> receive_commands e (RecvCommand c now # evs) s = receive_commands e evs s))
   \<and> (lacks_required_field s c \<longrightarrow>
        (\<exists>f. handle_command_main2 e now c sk s = (Some (KeyError f), s))
        \<and> (running s \<longrightarrow>
              handle_client e k (RecvCommand c now # evs) s =
                (Exited, s\<lparr>clients := remove1 k (clients s), closed := closed s @ [k]\<rparr>)
              \<and> receive_commands e (RecvCommand c now # evs) s = (Exited, s)))"
proof (intro conjI allI impI)
  fix t
  assume a: "cmd_type c = Some t \<and> t \<notin> set known_tags"
  then show "handle_command_main2 e now c sk s = (None, s)"
    using unknown_tag_ignored by blast
  assume r: "running s"
  have i1: "handle_command_main2 e now c (Some k) s = (None, s)"
    using a unknown_tag_ignored by blast
  have i2: "handle_command_main2 e now c None s = (None, s)"
    using a unknown_tag_ignored by blast
  show "handle_client e k (RecvCommand c now # evs) s = handle_client e k evs s"
    using r i1 by (simp add: handle_client_def)
  show "receive_commands e (RecvCommand c now # evs) s = receive_commands e evs s"
    using r i2 by simp
next
  assume a: "lacks_required_field s c"
  then show "\<exists>f. handle_command_main2 e now c sk s = (Some (KeyError f), s)"
    by (rule lacks_required_field_raises)
  assume r: "running s"
  from lacks_required_field_raises [OF a] obtain f1 where
    i1: "handle_command_main2 e now c (Some k) s = (Some (KeyError f1), s)" by blast
  from lacks_required_field_raises [OF a] obtain f2 where
    i2: "handle_command_main2 e now c None s = (Some (KeyError f2), s)" by blast
  show "handle_client e k (RecvCommand c now # evs) s =
          (Exited, s\<lparr>clients := remove1 k (clients s), closed := closed s @ [k]\<rparr>)"
    using r i1 by (simp add: handle_client_def)
  show "receive_commands e (RecvCommand c now # evs) s = (Exited, s)"
    using r i2 by simp
qed

theorem malformed_message_handling_witness:
  "cmd_type (mk_command ''hello'') = Some ''hello'' \<and> ''hello'' \<notin> set known_tags
   \<and> running ex_host \<and> lacks_required_field ex_host (mk_command ''request_file'')
   \<and> handle_client ex_env 1 [RecvCommand (mk_command ''hello'') 0] ex_host = (Receiving, ex_host)
   \<and> handle_client ex_env 1
        [RecvCommand (mk_command ''request_file'') 0, RecvCommand (mk_command ''hello'') 0] ex_host =
        (Exited, ex_host\<lparr>clients := [2], closed := [1]\<rparr>)"
proof -
  have t: "cmd_type (mk_command ''hello'') = Some ''hello''" by (simp add: mk_command_def)
  have u: "''hello'' \<notin> set known_tags" by (simp add: known_tags_def)
  have r: "running ex_host" by (simp add: ex_host_def)
  have l: "lacks_required_field ex_host (mk_command ''request_file'')"
    by (simp add: lacks_required_field_def mk_command_def ex_host_def)
  have n: "handle_client ex_env 1 [] ex_host = (Receiving, ex_host)"
    using r by (simp add: handle_client_def)
  have cl: "remove1 1 (clients ex_host) = [2]" "closed ex_host = []" by (simp_all add: ex_host_def)
  from malformed_message_handling
         [of "mk_command ''hello''" ex_env 0 "Some 1" ex_host 1 "[]"]
       malformed_message_handling
         [of "mk_command ''request_file''" ex_env 0 "Some 1" ex_host 1 "[RecvCommand (mk_command ''hello'') 0]"]
  show ?thesis using t u r l n cl by simp
qed

theorem malformed_message_handling_counterexample:
  "is_host ex_host \<and> running ex_host \<and> clients ex_host = [1, 2]
   \<and> cmd_type (mk_command ''request_file'') = Some ''request_file''
   \<and> cmd_index (mk_command ''request_file'') = None
   \<and> handle_command_main2 ex_env 0 (mk_command ''request_file'') (Some 1) ex_host =
        (Some (KeyError ''index''), ex_host)
   \<and> handle_client ex_env 1
        [RecvCommand (mk_command ''request_file'') 0, RecvCommand (mk_command ''pause'') 0] ex_host =
        (Exited, ex_host\<lparr>clients := [2], closed := [1]\<rparr>)
   \<and> receive_commands ex_env
        [RecvCommand (mk_command ''seek'') 0, RecvCommand (mk_command ''pause'') 0] ex_client =
        (Exited, ex_client)"
proof -
  have h: "is_host ex_host" "running ex_host" "clients ex_host = [1, 2]" "closed ex_host = []"
    by (simp_all add: ex_host_def)
  have c: "running ex_client" by (simp add: ex_client_def)
  have m: "cmd_type (mk_command t) = Some t" "cmd_index (mk_command t) = None"
          "cmd_time (mk_command t) = None" for t
    by (simp_all add: mk_command_def)
  have d1: "handle_command_main2 ex_env 0 (mk_command ''request_file'') (Some 1) ex_host =
              (Some (KeyError ''index''), ex_host)"
    by (simp add: handle_command_main2_def m h handle_file_request_def)
  have d2: "handle_command_main2 ex_env 0 (mk_command ''seek'') None ex_client =
              (Some (KeyError ''time''), ex_client)"
    by (simp add: handle_command_main2_def m)
  show ?thesis using h c m d1 d2 by (simp add: handle_client_def)
qed

end
